theory Spec2Isabelle
  imports Complex_Main
begin

section \<open>Bulk PageSpeed checker: a shallow embedding of \<open>app.py\<close> and \<open>app2.py\<close>\<close>

text \<open>
  The program reads a sitemap, runs the Lighthouse command line tool on every URL found
  there and appends one row per URL to a CSV report. This theory embeds the functions of
  \<open>src/app.py\<close> (the variant with timeout, report artifact and configurable delay) and,
  where a property refers to it, of \<open>src/app2.py\<close> (the early variant) as HOL functions.
  Everything outside the process (the HTTP fetch, the Lighthouse process, the clock) is an
  explicit argument; the file system and the sleeps performed are an explicit state.
\<close>

subsection \<open>Python string operations\<close>

text \<open>
  \<open>str.replace(old, new)\<close>: all non-overlapping occurrences, scanning from the left.
  For the empty pattern Python inserts \<open>new\<close> before every character and at the end.
\<close>

function py_replace :: "string \<Rightarrow> string \<Rightarrow> string \<Rightarrow> string" where
  "py_replace old new [] = (if old = [] then new else [])"
| "py_replace old new (c # cs) =
     (if old = [] then new @ c # py_replace old new cs
      else if take (length old) (c # cs) = old
        then new @ py_replace old new (drop (length old) (c # cs))
      else c # py_replace old new cs)"
  by pat_completeness auto
termination
  by (relation "measure (\<lambda>(old, new, s). length s)") auto

text \<open>
  \<open>str.split(sep)\<close> for a non-empty separator: the pieces between the occurrences of
  \<open>sep\<close>, scanning from the left. The result is never the empty list, so that the
  index \<open>[0]\<close> of the source cannot raise (lemma \<open>py_split_nonempty\<close> below).
\<close>

function py_split_from :: "string \<Rightarrow> string \<Rightarrow> string \<Rightarrow> string list" where
  "py_split_from sep piece [] = [piece]"
| "py_split_from sep piece (c # cs) =
     (if sep \<noteq> [] \<and> take (length sep) (c # cs) = sep
        then piece # py_split_from sep [] (drop (length sep) (c # cs))
      else py_split_from sep (piece @ [c]) cs)"
  by pat_completeness auto
termination
  by (relation "measure (\<lambda>(sep, piece, s). length s)") auto

definition py_split :: "string \<Rightarrow> string \<Rightarrow> string list" where
  "py_split sep s = py_split_from sep [] s"

subsection \<open>Exceptions\<close>

text \<open>
  The exceptions that the modelled code can raise. A \<open>try\<close> body is a function into
  \<open>exn + 'a\<close> (\<open>Inl\<close> the exception raised), and its \<open>except\<close> clauses are the
  case distinction of the function that wraps it.
\<close>

datatype exn =
    RequestException | HTTPError | ParseError
  | TimeoutExpired | FileNotFoundError | JSONDecodeError
  | AttributeError | TypeError | OverflowError | ValueError | OSError

definition bind_exn :: "exn + 'a \<Rightarrow> ('a \<Rightarrow> exn + 'b) \<Rightarrow> exn + 'b" where
  "bind_exn m f = (case m of Inl e \<Rightarrow> Inl e | Inr x \<Rightarrow> f x)"

subsection \<open>\<open>extract_domain\<close> and the report name\<close>

text \<open>
  Two validations of \<open>urllib.parse\<close> that the model does not compute are taken from
  outside, each as the predicate of the arguments it accepts: \<open>_check_bracketed_host\<close>
  (the text between the brackets of a network location is an IPv6 or IPvFuture address)
  and the normalisation test of \<open>_checknetloc\<close> for a network location that is not
  ASCII. Both raise \<open>ValueError\<close> for what they do not accept.
\<close>

record url_checks =
  check_bracketed_host :: "string \<Rightarrow> bool"
  checknetloc :: "string \<Rightarrow> bool"

text \<open>
  \<open>urllib.parse.urlparse(url).netloc\<close>, following \<open>urlsplit\<close> of the standard library:
  leading C0 control characters and spaces are stripped, tab, carriage return and newline
  are removed, a leading scheme (a letter followed by letters, digits, \<open>+\<close>, \<open>-\<close>, \<open>.\<close> up
  to the first colon) is split off, and if the rest starts with \<open>//\<close> the network
  location runs up to the first of \<open>/\<close>, \<open>?\<close>, \<open>#\<close>. \<open>ValueError\<close> is raised when
  the network location has one of the brackets \<open>[\<close>, \<open>]\<close> without the other, when the
  text from the first \<open>[\<close> to the next \<open>]\<close> is not accepted as a bracketed host, and
  when a network location that is not ASCII fails the normalisation test.
\<close>

definition is_ascii_alpha :: "char \<Rightarrow> bool" where
  "is_ascii_alpha c =
     (let n = (of_char c :: nat) in (65 \<le> n \<and> n \<le> 90) \<or> (97 \<le> n \<and> n \<le> 122))"

definition scheme_chars :: string where
  "scheme_chars =
     ''abcdefghijklmnopqrstuvwxyz'' @ ''ABCDEFGHIJKLMNOPQRSTUVWXYZ'' @ ''0123456789'' @ ''+-.''"

definition urlparse_netloc :: "url_checks \<Rightarrow> string \<Rightarrow> exn + string" where
  "urlparse_netloc lib url0 =
     (let url1 = dropWhile (\<lambda>c. (of_char c :: nat) \<le> 32) url0;
          url2 = filter (\<lambda>c. (of_char c :: nat) \<notin> {9, 13, 10}) url1;
          pre = takeWhile (\<lambda>c. c \<noteq> CHR '':'') url2;
          url3 = (if CHR '':'' \<in> set url2 \<and> pre \<noteq> [] \<and> is_ascii_alpha (hd pre)
                     \<and> list_all (\<lambda>c. c \<in> set scheme_chars) pre
                  then drop (length pre + 1) url2 else url2);
          netloc = (if take 2 url3 = ''//''
                    then takeWhile (\<lambda>c. c \<notin> set ''/?#'') (drop 2 url3)
                    else []);
          opening = (CHR ''['' \<in> set netloc);
          closing = (CHR '']'' \<in> set netloc);
          bracketed_host =
            takeWhile (\<lambda>c. c \<noteq> CHR '']'') (drop 1 (dropWhile (\<lambda>c. c \<noteq> CHR ''['') netloc))
      in if (opening \<and> \<not> closing) \<or> (closing \<and> \<not> opening) then Inl ValueError
         else if opening \<and> closing \<and> \<not> check_bracketed_host lib bracketed_host
           then Inl ValueError
         else if \<not> list_all (\<lambda>c. (of_char c :: nat) < 128) netloc \<and> \<not> checknetloc lib netloc
           then Inl ValueError
         else Inr netloc)"

text \<open>
  \<^verbatim>\<open>
  def extract_domain(sitemap_url):
      parsed_url = urllib.parse.urlparse(sitemap_url)
      return parsed_url.netloc.replace("www.", "").split(":")[0]
  \<close>
\<close>

definition extract_domain :: "url_checks \<Rightarrow> string \<Rightarrow> exn + string" where
  "extract_domain lib sitemap_url =
     bind_exn (urlparse_netloc lib sitemap_url) (\<lambda>netloc.
     Inr (hd (py_split '':'' (py_replace ''www.'' [] netloc))))"

text \<open>
  \<open>main\<close>, lines 116 to 118:
  \<^verbatim>\<open>
  domain_name = extract_domain(sitemap_url)
  timestamp = datetime.now().strftime("%Y%m%d_%H%M%S")
  output_csv = f"{domain_name}_pagespeed_{timestamp}.csv"
  \<close>
\<close>

definition report_name :: "url_checks \<Rightarrow> string \<Rightarrow> string \<Rightarrow> exn + string" where
  "report_name lib sitemap_url timestamp =
     bind_exn (extract_domain lib sitemap_url) (\<lambda>domain_name.
     Inr (domain_name @ ''_pagespeed_'' @ timestamp @ ''.csv''))"

subsection \<open>The Sitemap Reader\<close>

text \<open>
  An \<open>xml.etree.ElementTree\<close> element: its tag (a namespaced tag is the string
  \<open>{uri}local\<close>), its text (\<open>None\<close> when the element has none) and its children in
  document order. The default parser drops comments and processing instructions, so
  every node is an element.
\<close>

datatype element =
  Element (elem_tag: string) (elem_text: "string option") (elem_children: "element list")

text \<open>\<open>Element.iter()\<close>: the element and all its descendants, in document order.\<close>

fun iter :: "element \<Rightarrow> element list" where
  "iter (Element t x cs) = Element t x cs # concat (map iter cs)"

text \<open>
  The two selectors of \<open>xml.etree.ElementPath\<close> that the path \<open>.//ns:url/ns:loc\<close>
  compiles to. The descendant step yields, for each element of the current result, the
  elements of \<open>iter\<close> with the tag, the element itself excepted; the child step yields
  the children with the tag.
\<close>

definition select_descendant :: "string \<Rightarrow> element list \<Rightarrow> element list" where
  "select_descendant t result =
     concat (map (\<lambda>elem. filter (\<lambda>e. elem_tag e = t) (concat (map iter (elem_children elem))))
       result)"

definition select_child :: "string \<Rightarrow> element list \<Rightarrow> element list" where
  "select_child t result =
     concat (map (\<lambda>elem. filter (\<lambda>e. elem_tag e = t) (elem_children elem)) result)"

definition sitemap_ns :: string where
  "sitemap_ns = ''http://www.sitemaps.org/schemas/sitemap/0.9''"

text \<open>The tokenizer replaces a prefixed name \<open>ns:local\<close> by \<open>{uri}local\<close>.\<close>

definition qname :: "string \<Rightarrow> string \<Rightarrow> string" where
  "qname uri local = ''{'' @ uri @ ''}'' @ local"

text \<open>
  \<open>root.findall('.//ns:url/ns:loc', namespace)\<close> with
  \<open>namespace = {'ns': 'http://www.sitemaps.org/schemas/sitemap/0.9'}\<close>.
\<close>

definition findall_url_loc :: "element \<Rightarrow> element list" where
  "findall_url_loc root_elem =
     select_child (qname sitemap_ns ''loc'')
       (select_descendant (qname sitemap_ns ''url'') [root_elem])"

text \<open>
  The outcome of \<open>requests.get\<close>: the request fails with an exception (no connection,
  timeout, invalid URL), or a response arrives. A response carries its status code and
  its body; the body is represented by what \<open>ET.fromstring(response.text)\<close> makes of
  it: \<open>None\<close> when the text is not well-formed XML, the root element otherwise.
\<close>

datatype http_result = Failed | Response (status_code: nat) (body: "element option")

text \<open>\<open>Response.raise_for_status\<close> raises for the status codes 400 to 599.\<close>

definition raise_for_status :: "nat \<Rightarrow> exn + unit" where
  "raise_for_status status = (if 400 \<le> status \<and> status < 600 then Inl HTTPError else Inr ())"

definition fromstring :: "element option \<Rightarrow> exn + element" where
  "fromstring parsed = (case parsed of None \<Rightarrow> Inl ParseError | Some root_elem \<Rightarrow> Inr root_elem)"

text \<open>
  \<^verbatim>\<open>
  def get_urls_from_sitemap(sitemap_url):
      try:
          response = requests.get(sitemap_url, timeout=10)
          response.raise_for_status()
          urls = []
          root = ET.fromstring(response.text)
          namespace = {'ns': 'http://www.sitemaps.org/schemas/sitemap/0.9'}
          for url in root.findall('.//ns:url/ns:loc', namespace):
              urls.append(url.text)
          return urls
      except Exception as e:
          print(f"Error fetching sitemap: {e}")
          return []
  \<close>
  The first function is the body of the \<open>try\<close>, the second adds the handler.
\<close>

definition get_urls_from_sitemap_try ::
  "(string \<Rightarrow> http_result) \<Rightarrow> string \<Rightarrow> exn + string option list" where
  "get_urls_from_sitemap_try requests_get sitemap_url =
     (case requests_get sitemap_url of
        Failed \<Rightarrow> Inl RequestException
      | Response status parsed \<Rightarrow>
          bind_exn (raise_for_status status) (\<lambda>_.
          bind_exn (fromstring parsed) (\<lambda>root_elem.
          Inr (map elem_text (findall_url_loc root_elem)))))"

definition get_urls_from_sitemap :: "(string \<Rightarrow> http_result) \<Rightarrow> string \<Rightarrow> string option list" where
  "get_urls_from_sitemap requests_get sitemap_url =
     (case get_urls_from_sitemap_try requests_get sitemap_url of
        Inr urls \<Rightarrow> urls
      | Inl e \<Rightarrow> [])"

text \<open>
  The early variant (\<open>app2.py\<close>) has no handler, reads the body only for status 200 and
  writes the two tags with their namespace in the path.
  \<^verbatim>\<open>
  def get_urls_from_sitemap(sitemap_url):
      response = requests.get(sitemap_url)
      urls = []
      if response.status_code == 200:
          root = ET.fromstring(response.text)
          for url in root.findall(".//{http://www.sitemaps.org/schemas/sitemap/0.9}url/{http://www.sitemaps.org/schemas/sitemap/0.9}loc"):
              urls.append(url.text)
      return urls
  \<close>
\<close>

definition get_urls_from_sitemap_app2 ::
  "(string \<Rightarrow> http_result) \<Rightarrow> string \<Rightarrow> exn + string option list" where
  "get_urls_from_sitemap_app2 requests_get sitemap_url =
     (case requests_get sitemap_url of
        Failed \<Rightarrow> Inl RequestException
      | Response status parsed \<Rightarrow>
          if status = 200
          then bind_exn (fromstring parsed) (\<lambda>root_elem.
               Inr (map elem_text
                 (select_child ''{http://www.sitemaps.org/schemas/sitemap/0.9}loc''
                   (select_descendant ''{http://www.sitemaps.org/schemas/sitemap/0.9}url''
                     [root_elem]))))
          else Inr [])"

subsection \<open>Python numbers\<close>

text \<open>
  A JSON number is read as a Python \<open>int\<close> (unbounded) or as a \<open>float\<close>. A float is
  an IEEE 754 binary64 value: a finite value is given by the rational number it denotes
  (\<open>Finite 0\<close> is \<open>0.0\<close>), with the negative zero, the two infinities and not-a-number
  as further values.
\<close>

datatype pyfloat = Finite rat | NegZero | PosInf | NegInf | NaN

datatype pynum = PyInt int | PyFloat pyfloat

text \<open>Powers of two, by repeated squaring; \<open>pow2 e\<close> is \<open>2\<close> to the power \<open>e\<close>.\<close>

function two_to :: "int \<Rightarrow> int" where
  "two_to e =
     (if e \<le> 0 then 1
      else let h = two_to (e div 2) in if even e then h * h else 2 * (h * h))"
  by pat_completeness auto
termination
  by (relation "measure nat") auto

definition pow2 :: "int \<Rightarrow> rat" where
  "pow2 e = (if 0 \<le> e then of_int (two_to e) else 1 / of_int (two_to (- e)))"

function bit_length :: "int \<Rightarrow> int" where
  "bit_length n = (if n \<le> 0 then 0 else 1 + bit_length (n div 2))"
  by pat_completeness auto
termination
  by (relation "measure nat") auto

text \<open>For \<open>q > 0\<close>, the exponent \<open>e\<close> with \<open>2 ^ e \<le> q < 2 ^ (e + 1)\<close>.\<close>

definition floor_log2 :: "rat \<Rightarrow> int" where
  "floor_log2 q =
     (let (p, d) = quotient_of q;
          k = bit_length p - bit_length d
      in if pow2 k \<le> q then k else k - 1)"

definition round_half_even :: "rat \<Rightarrow> int" where
  "round_half_even x =
     (let f = \<lfloor>x\<rfloor>; r = x - of_int f
      in if r < 1 / 2 then f else if 1 / 2 < r then f + 1 else if even f then f else f + 1)"

text \<open>
  Rounding of an exact result to binary64, to nearest with ties to even: 53 significant
  bits, exponents from \<open>-1022\<close> (below it the spacing stays \<open>2 ^ -1074\<close>, the subnormal
  range), overflow to an infinity from \<open>2 ^ 1024\<close> on. A non-zero value that rounds
  to zero keeps its sign.
\<close>

definition to_binary64 :: "rat \<Rightarrow> pyfloat" where
  "to_binary64 q =
     (if q = 0 then Finite 0
      else
        let a = \<bar>q\<bar>;
            e = max (floor_log2 a) (- 1022);
            u = pow2 (e - 52);
            r = of_int (round_half_even (a / u)) * u
        in if pow2 1024 \<le> r then (if q < 0 then NegInf else PosInf)
           else if r = 0 then (if q < 0 then NegZero else Finite 0)
           else Finite (if q < 0 then - r else r))"

text \<open>
  \<open>x * k\<close> and \<open>x / k\<close> for a float \<open>x\<close> and a positive \<open>int\<close> constant \<open>k\<close> that is a
  float without rounding (the source has \<open>100\<close> and \<open>1000\<close>); \<open>n / k\<close> for an \<open>int\<close>
  \<open>n\<close>, which is correctly rounded and raises \<open>OverflowError\<close> when the quotient is too
  large for a float.
\<close>

definition float_mul :: "pyfloat \<Rightarrow> int \<Rightarrow> pyfloat" where
  "float_mul x k =
     (case x of
        Finite a \<Rightarrow> (if a = 0 then Finite 0 else to_binary64 (a * of_int k))
      | _ \<Rightarrow> x)"

definition float_truediv :: "pyfloat \<Rightarrow> int \<Rightarrow> pyfloat" where
  "float_truediv x k =
     (case x of
        Finite a \<Rightarrow> (if a = 0 then Finite 0 else to_binary64 (a / of_int k))
      | _ \<Rightarrow> x)"

definition int_truediv :: "int \<Rightarrow> int \<Rightarrow> exn + pyfloat" where
  "int_truediv n k =
     (if n = 0 then Inr (Finite 0)
      else case to_binary64 (of_int n / of_int k) of
             PosInf \<Rightarrow> Inl OverflowError
           | NegInf \<Rightarrow> Inl OverflowError
           | y \<Rightarrow> Inr y)"

text \<open>
  \<open>round(x, ndigits)\<close> for a float: the exact value is rounded to \<open>ndigits\<close> decimals,
  ties to even, and the decimal result is converted back to the nearest float. Zeros,
  infinities and not-a-number are returned as they are.
\<close>

definition float_round :: "pyfloat \<Rightarrow> nat \<Rightarrow> pyfloat" where
  "float_round x ndigits =
     (case x of
        Finite a \<Rightarrow>
          (let d = of_int (round_half_even (a * 10 ^ ndigits)) / 10 ^ ndigits
           in if d = 0 then (if a < 0 then NegZero else Finite 0) else to_binary64 d)
      | _ \<Rightarrow> x)"

text \<open>
  The three operations of the source on a number that is an \<open>int\<close> or a \<open>float\<close>.
  \<open>round\<close> of an \<open>int\<close> to a non-negative number of digits is the \<open>int\<close> itself.
\<close>

definition py_mul :: "pynum \<Rightarrow> int \<Rightarrow> pynum" where
  "py_mul x k = (case x of PyInt n \<Rightarrow> PyInt (n * k) | PyFloat y \<Rightarrow> PyFloat (float_mul y k))"

definition py_truediv :: "pynum \<Rightarrow> int \<Rightarrow> exn + pynum" where
  "py_truediv x k =
     (case x of
        PyInt n \<Rightarrow> bind_exn (int_truediv n k) (\<lambda>y. Inr (PyFloat y))
      | PyFloat y \<Rightarrow> Inr (PyFloat (float_truediv y k)))"

definition py_round :: "pynum \<Rightarrow> nat \<Rightarrow> pynum" where
  "py_round x ndigits =
     (case x of PyInt n \<Rightarrow> PyInt n | PyFloat y \<Rightarrow> PyFloat (float_round y ndigits))"

subsection \<open>JSON values and metric extraction\<close>

text \<open>
  The value that \<open>json.load\<close> returns. An object is a \<open>dict\<close>, given by its items;
  \<open>map_of\<close> looks a key up.
\<close>

datatype json =
    JNull | JBool bool | JNum pynum | JStr string | JArr "json list"
  | JObj "(string \<times> json) list"

text \<open>A value of the result dictionary and a cell of the report: \<open>None\<close>, a string or a number.\<close>

datatype pyval = PyNone | PyStr string | PyNum pynum

text \<open>\<open>obj.get(key, dflt)\<close>; only a \<open>dict\<close> has the method.\<close>

definition py_get :: "json \<Rightarrow> string \<Rightarrow> json \<Rightarrow> exn + json" where
  "py_get obj key dflt =
     (case obj of
        JObj kvs \<Rightarrow> Inr (case map_of kvs key of Some v \<Rightarrow> v | None \<Rightarrow> dflt)
      | _ \<Rightarrow> Inl AttributeError)"

text \<open>
  The operand of an arithmetic operation or of \<open>round\<close>: a number, or a boolean (an
  \<open>int\<close> in Python); anything else raises \<open>TypeError\<close>. (For a string or a list the
  product with \<open>100\<close> is a repetition and \<open>TypeError\<close> is raised by \<open>round\<close> in the
  \<open>return\<close> statement only; the handler is the same.)
\<close>

definition as_number :: "json \<Rightarrow> exn + pynum" where
  "as_number v =
     (case v of
        JNum n \<Rightarrow> Inr n
      | JBool b \<Rightarrow> Inr (PyInt (if b then 1 else 0))
      | _ \<Rightarrow> Inl TypeError)"

record metrics =
  performance :: pyval
  speed_index :: pyval
  lcp :: pyval
  inp :: pyval
  cls :: pyval

text \<open>
  \<^verbatim>\<open>
  def default_error_values():
      return {"performance": "Error", "speed_index": "Error", "lcp": "Error",
              "inp": "Error", "cls": "Error"}
  \<close>
\<close>

definition default_error_values :: metrics where
  "default_error_values =
     \<lparr>performance = PyStr ''Error'',
      speed_index = PyStr ''Error'',
      lcp = PyStr ''Error'',
      inp = PyStr ''Error'',
      cls = PyStr ''Error''\<rparr>"

text \<open>
  Lines 71 to 87 of \<open>run_lighthouse\<close>, in the order of evaluation:
  \<^verbatim>\<open>
  audits = data.get("audits", {})
  categories = data.get("categories", {})
  performance = categories.get("performance", {}).get("score", 0) * 100
  speed_index = audits.get("speed-index", {}).get("numericValue", 0) / 1000
  lcp = audits.get("largest-contentful-paint", {}).get("numericValue", 0) / 1000
  inp = audits.get("interaction-to-next-paint", {}).get("numericValue",
       audits.get("first-input-delay", {}).get("numericValue", 0))
  cls = audits.get("cumulative-layout-shift", {}).get("numericValue", 0)
  return {"performance": round(performance, 1), "speed_index": round(speed_index, 2),
          "lcp": round(lcp, 2), "inp": round(inp, 2), "cls": round(cls, 3)}
  \<close>
  The default of the \<open>inp\<close> lookup is an argument, so the first-input-delay lookup is
  evaluated whether or not the interaction-to-next-paint value is present.
\<close>

definition extract_metrics :: "json \<Rightarrow> exn + metrics" where
  "extract_metrics data =
     bind_exn (py_get data ''audits'' (JObj [])) (\<lambda>audits.
     bind_exn (py_get data ''categories'' (JObj [])) (\<lambda>categories.
     bind_exn (py_get categories ''performance'' (JObj [])) (\<lambda>perf_category.
     bind_exn (py_get perf_category ''score'' (JNum (PyInt 0))) (\<lambda>score.
     bind_exn (as_number score) (\<lambda>score_n.
     let performance = py_mul score_n 100 in
     bind_exn (py_get audits ''speed-index'' (JObj [])) (\<lambda>si_audit.
     bind_exn (py_get si_audit ''numericValue'' (JNum (PyInt 0))) (\<lambda>si_raw.
     bind_exn (as_number si_raw) (\<lambda>si_n.
     bind_exn (py_truediv si_n 1000) (\<lambda>speed_index.
     bind_exn (py_get audits ''largest-contentful-paint'' (JObj [])) (\<lambda>lcp_audit.
     bind_exn (py_get lcp_audit ''numericValue'' (JNum (PyInt 0))) (\<lambda>lcp_raw.
     bind_exn (as_number lcp_raw) (\<lambda>lcp_n.
     bind_exn (py_truediv lcp_n 1000) (\<lambda>lcp.
     bind_exn (py_get audits ''interaction-to-next-paint'' (JObj [])) (\<lambda>inp_audit.
     bind_exn (py_get audits ''first-input-delay'' (JObj [])) (\<lambda>fid_audit.
     bind_exn (py_get fid_audit ''numericValue'' (JNum (PyInt 0))) (\<lambda>fid_raw.
     bind_exn (py_get inp_audit ''numericValue'' fid_raw) (\<lambda>inp.
     bind_exn (py_get audits ''cumulative-layout-shift'' (JObj [])) (\<lambda>cls_audit.
     bind_exn (py_get cls_audit ''numericValue'' (JNum (PyInt 0))) (\<lambda>cls.
     bind_exn (as_number inp) (\<lambda>inp_n.
     bind_exn (as_number cls) (\<lambda>cls_n.
     Inr \<lparr>performance = PyNum (py_round performance 1),
          speed_index = PyNum (py_round speed_index 2),
          lcp = PyNum (py_round lcp 2),
          inp = PyNum (py_round inp_n 2),
          cls = PyNum (py_round cls_n 3)\<rparr>)))))))))))))))))))))"

subsection \<open>The file system and the Lighthouse process\<close>

text \<open>
  A file is the JSON artifact of a Lighthouse run or a CSV report. The artifact is
  represented by what \<open>json.load\<close> makes of its text (\<open>None\<close> when the text is not
  JSON), the report by its rows, each row the list of its cells. The state of a run is
  the file system together with the completed calls of \<open>time.sleep\<close>, in order.
  Console output is not part of the state.
\<close>

datatype file_content = Json_file "json option" | Csv_file "pyval list list"

record world =
  files :: "string \<rightharpoonup> file_content"
  sleeps :: "int list"

text \<open>
  The outcome of \<open>subprocess.run(["lighthouse", url, ..., "--output-path=...", ...],
  timeout=180, ...)\<close>: the executable is not found, the timeout expires, or the process
  exits (its return code is not looked at). In the last two cases the argument tells what
  the process has written to the output path: nothing, or a text. The process writes to no
  other path.
\<close>

datatype process_result =
    NotFound | Timeout "json option option" | Exited "json option option"

definition write_report :: "string \<Rightarrow> json option option \<Rightarrow> world \<Rightarrow> world" where
  "write_report path written w =
     (case written of
        None \<Rightarrow> w
      | Some content \<Rightarrow> w\<lparr>files := (files w)(path \<mapsto> Json_file content)\<rparr>)"

text \<open>
  \<open>json.load(f)\<close>. The text of a report written by this program starts with the header
  \<open>URL,Performance Score,...\<close> and is not JSON.
\<close>

definition json_load :: "file_content \<Rightarrow> exn + json" where
  "json_load f =
     (case f of
        Json_file (Some data) \<Rightarrow> Inr data
      | Json_file None \<Rightarrow> Inl JSONDecodeError
      | Csv_file rows \<Rightarrow> Inl JSONDecodeError)"

definition os_remove :: "string \<Rightarrow> world \<Rightarrow> world" where
  "os_remove path w = w\<lparr>files := (files w)(path := None)\<rparr>"

text \<open>\<open>output_file = f"lighthouse_report_{timestamp}.json"\<close>\<close>

definition lighthouse_report :: "string \<Rightarrow> string" where
  "lighthouse_report timestamp = ''lighthouse_report_'' @ timestamp @ ''.json''"

text \<open>
  The body of the \<open>try\<close> of \<open>run_lighthouse\<close> (lines 42 to 87). Its arguments are the
  behaviour of the process for this call, the timestamp read from the clock, the URL and
  the state. A URL that is \<open>None\<close> (a \<open>loc\<close> element without text) makes
  \<open>subprocess.run\<close> raise \<open>TypeError\<close> before any process is started.
  \<^verbatim>\<open>
  timestamp = datetime.now().strftime("%Y%m%d_%H%M%S")
  output_file = f"lighthouse_report_{timestamp}.json"
  result = subprocess.run([...], timeout=180, capture_output=True, text=True)
  with open(output_file) as f:
      data = json.load(f)
  os.remove(output_file)
  ... (metric extraction)
  \<close>
\<close>

definition run_lighthouse_try ::
  "(string \<Rightarrow> string \<Rightarrow> process_result) \<Rightarrow> string \<Rightarrow> string option \<Rightarrow> world
     \<Rightarrow> (exn + metrics) \<times> world" where
  "run_lighthouse_try subprocess_run timestamp url w =
     (let output_file = lighthouse_report timestamp in
      case url of
        None \<Rightarrow> (Inl TypeError, w)
      | Some u \<Rightarrow>
         (case subprocess_run u output_file of
            NotFound \<Rightarrow> (Inl FileNotFoundError, w)
          | Timeout written \<Rightarrow> (Inl TimeoutExpired, write_report output_file written w)
          | Exited written \<Rightarrow>
             (let w1 = write_report output_file written w in
              case files w1 output_file of
                None \<Rightarrow> (Inl FileNotFoundError, w1)
              | Some f \<Rightarrow>
                 (case json_load f of
                    Inl e \<Rightarrow> (Inl e, w1)
                  | Inr data \<Rightarrow> (extract_metrics data, os_remove output_file w1)))))"

text \<open>
  The four handlers (lines 89 to 100): \<open>TimeoutExpired\<close>, \<open>FileNotFoundError\<close>,
  \<open>JSONDecodeError\<close> and \<open>Exception\<close>, each returning \<open>default_error_values()\<close>.
\<close>

definition run_lighthouse ::
  "(string \<Rightarrow> string \<Rightarrow> process_result) \<Rightarrow> string \<Rightarrow> string option \<Rightarrow> world
     \<Rightarrow> metrics \<times> world" where
  "run_lighthouse subprocess_run timestamp url w =
     (case run_lighthouse_try subprocess_run timestamp url w of
        (Inr result, w') \<Rightarrow> (result, w')
      | (Inl TimeoutExpired, w') \<Rightarrow> (default_error_values, w')
      | (Inl FileNotFoundError, w') \<Rightarrow> (default_error_values, w')
      | (Inl JSONDecodeError, w') \<Rightarrow> (default_error_values, w')
      | (Inl e, w') \<Rightarrow> (default_error_values, w'))"

subsection \<open>The report and \<open>main\<close>\<close>

text \<open>
  What a run takes from outside: the answer to the HTTP request, the behaviour of the
  Lighthouse process at the \<open>i\<close>-th measurement, the two validations of the URL
  library, the timestamps read from the clock
  (for the report name, for the artifact of the \<open>i\<close>-th measurement and for its row),
  and what the operating system makes of the sleep after the \<open>i\<close>-th measurement: the
  exception that its system call ends with for a given number of seconds, if any.
\<close>

record env =
  urllib :: url_checks
  http_get :: "string \<Rightarrow> http_result"
  lighthouse :: "nat \<Rightarrow> string \<Rightarrow> string \<Rightarrow> process_result"
  run_timestamp :: string
  report_timestamp :: "nat \<Rightarrow> string"
  row_timestamp :: "nat \<Rightarrow> string"
  os_sleep :: "nat \<Rightarrow> int \<Rightarrow> exn option"

text \<open>The header row of lines 133 to 141.\<close>

definition csv_header :: "pyval list" where
  "csv_header =
     [PyStr ''URL'',
      PyStr ''Performance Score'',
      PyStr ''Speed Index (s)'',
      PyStr ''LCP (s)'',
      PyStr ''INP (ms)'',
      PyStr ''CLS'',
      PyStr ''Waktu Pengukuran'']"

definition url_cell :: "string option \<Rightarrow> pyval" where
  "url_cell url = (case url of None \<Rightarrow> PyNone | Some u \<Rightarrow> PyStr u)"

text \<open>The row of lines 154 to 162.\<close>

definition csv_row :: "string option \<Rightarrow> metrics \<Rightarrow> string \<Rightarrow> pyval list" where
  "csv_row url result now =
     [url_cell url, performance result, speed_index result, lcp result, inp result, cls result,
      PyStr now]"

text \<open>
  \<open>with open(path, "w") as f: csv.writer(f).writerow(row)\<close> replaces the file by the one
  row; with mode \<open>"a"\<close> the row is added at the end, and the file is created when it does
  not exist. The file is closed when the \<open>with\<close> block is left, so each of the two is one
  step of the state. (An artifact that a row is appended to is no longer JSON; by the
  names of the files this does not occur in a run.) A file system that refuses the
  operation (no permission, no space left) is not part of the model.
\<close>

definition open_write :: "string \<Rightarrow> pyval list \<Rightarrow> world \<Rightarrow> world" where
  "open_write path row w = w\<lparr>files := (files w)(path \<mapsto> Csv_file [row])\<rparr>"

definition open_append :: "string \<Rightarrow> pyval list \<Rightarrow> world \<Rightarrow> world" where
  "open_append path row w =
     w\<lparr>files := (files w)(path \<mapsto>
        (case files w path of
           Some (Csv_file rows) \<Rightarrow> Csv_file (rows @ [row])
         | Some (Json_file content) \<Rightarrow> Json_file None
         | None \<Rightarrow> Csv_file [row]))\<rparr>"

text \<open>
  \<open>time.sleep(secs)\<close> for an \<open>int\<close>. CPython converts the argument to a signed
  64-bit number of nanoseconds and raises \<open>OverflowError\<close> when it does not fit, that
  is beyond 9223372036 seconds in either direction; it raises \<open>ValueError\<close> for any
  other negative argument. What is left goes to the operating system, whose call can fail
  as well (on Linux \<open>clock_nanosleep\<close> rejects a deadline of 9223372036 seconds or more
  on the monotonic clock, so a delay close to the bound ends with \<open>OSError\<close>); the
  first argument is its answer. \<open>sleep_error\<close> is the exception raised, if any.
\<close>

definition sleep_error :: "(int \<Rightarrow> exn option) \<Rightarrow> int \<Rightarrow> exn option" where
  "sleep_error system_call secs =
     (if secs < - 9223372036 \<or> 9223372036 < secs then Some OverflowError
      else if secs < 0 then Some ValueError
      else system_call secs)"

definition time_sleep :: "(int \<Rightarrow> exn option) \<Rightarrow> int \<Rightarrow> world \<Rightarrow> exn + world" where
  "time_sleep system_call secs w =
     (case sleep_error system_call secs of
        Some e \<Rightarrow> Inl e
      | None \<Rightarrow> Inr (w\<lparr>sleeps := sleeps w @ [secs]\<rparr>))"

text \<open>
  A run returns or is ended by an exception that nothing handles (from the domain
  extraction before anything else is done, or from \<open>time.sleep\<close>). Besides the outcome the
  model returns the trace of the run: the state after each step, with the step that led
  to it. \<open>rows_done\<close> is the number of URLs whose row has been appended when the step
  is over.
\<close>

datatype outcome = Returned | Raised exn

datatype step = Started | Created | Measured nat | Appended nat | Slept nat

fun rows_done :: "step \<Rightarrow> nat" where
  "rows_done Started = 0"
| "rows_done Created = 0"
| "rows_done (Measured i) = i - 1"
| "rows_done (Appended i) = i"
| "rows_done (Slept i) = i"

text \<open>
  The loop of lines 144 to 170, \<open>n\<close> being \<open>len(urls)\<close> and \<open>i\<close> the index that
  \<open>enumerate(urls, 1)\<close> gives to the first of the remaining URLs:
  \<^verbatim>\<open>
  for i, url in enumerate(urls, 1):
      result = run_lighthouse(url)
      with open(output_csv, "a", newline="", encoding="utf-8") as f:
          writer = csv.writer(f)
          writer.writerow([url, result["performance"], result["speed_index"], result["lcp"],
                           result["inp"], result["cls"],
                           datetime.now().strftime("%Y-%m-%d %H:%M:%S")])
      if i < len(urls):
          time.sleep(delay)
  \<close>
\<close>

fun measure_loop ::
  "env \<Rightarrow> string \<Rightarrow> int \<Rightarrow> nat \<Rightarrow> nat \<Rightarrow> string option list \<Rightarrow> world
     \<Rightarrow> outcome \<times> (step \<times> world) list" where
  "measure_loop ev output_csv delay n i [] w = (Returned, [])"
| "measure_loop ev output_csv delay n i (url # rest) w =
     (let (result, w1) = run_lighthouse (lighthouse ev i) (report_timestamp ev i) url w;
          w2 = open_append output_csv (csv_row url result (row_timestamp ev i)) w1
      in if i < n then
           (case time_sleep (os_sleep ev i) delay w2 of
              Inl e \<Rightarrow> (Raised e, [(Measured i, w1), (Appended i, w2)])
            | Inr w3 \<Rightarrow>
               (case measure_loop ev output_csv delay n (i + 1) rest w3 of
                  (out, trace) \<Rightarrow>
                    (out, (Measured i, w1) # (Appended i, w2) # (Slept i, w3) # trace)))
         else
           (case measure_loop ev output_csv delay n (i + 1) rest w2 of
              (out, trace) \<Rightarrow> (out, (Measured i, w1) # (Appended i, w2) # trace)))"

text \<open>
  \<open>main\<close>, lines 114 to 172, for the parsed arguments \<open>sitemap_url\<close> and \<open>delay\<close>:
  \<^verbatim>\<open>
  domain_name = extract_domain(sitemap_url)
  timestamp = datetime.now().strftime("%Y%m%d_%H%M%S")
  output_csv = f"{domain_name}_pagespeed_{timestamp}.csv"
  urls = get_urls_from_sitemap(sitemap_url)
  if not urls:
      return
  with open(output_csv, "w", newline="", encoding="utf-8") as f:
      writer = csv.writer(f)
      writer.writerow(["URL", "Performance Score", "Speed Index (s)", "LCP (s)", "INP (ms)",
                       "CLS", "Waktu Pengukuran"])
  for i, url in enumerate(urls, 1): ...
  \<close>
\<close>

definition main :: "env \<Rightarrow> string \<Rightarrow> int \<Rightarrow> world \<Rightarrow> outcome \<times> (step \<times> world) list" where
  "main ev sitemap_url delay w =
     (case report_name (urllib ev) sitemap_url (run_timestamp ev) of
        Inl e \<Rightarrow> (Raised e, [(Started, w)])
      | Inr output_csv \<Rightarrow>
         (let urls = get_urls_from_sitemap (http_get ev) sitemap_url
          in if urls = [] then (Returned, [(Started, w)])
             else
               (let w0 = open_write output_csv csv_header w in
                case measure_loop ev output_csv delay (length urls) 1 urls w0 of
                  (out, trace) \<Rightarrow> (out, (Started, w) # (Created, w0) # trace))))"

subsection \<open>The loop of the early variant\<close>


subsection \<open>Notions used in the properties\<close>

text \<open>
  The path of the report of a run. A run whose domain extraction raises ends before a path
  is formed and touches no file; the empty path stands for its report.
\<close>

definition output_csv :: "env \<Rightarrow> string \<Rightarrow> string" where
  "output_csv ev sitemap_url =
     (case report_name (urllib ev) sitemap_url (run_timestamp ev) of
        Inr path \<Rightarrow> path
      | Inl e \<Rightarrow> [])"

text \<open>The state after the audit of the \<open>i\<close>-th URL and after the append of its row.\<close>

definition after_audit :: "env \<Rightarrow> nat \<Rightarrow> string option \<Rightarrow> world \<Rightarrow> world" where
  "after_audit ev i url w = snd (run_lighthouse (lighthouse ev i) (report_timestamp ev i) url w)"

definition after_append :: "env \<Rightarrow> string \<Rightarrow> nat \<Rightarrow> string option \<Rightarrow> world \<Rightarrow> world" where
  "after_append ev csv i url w =
     open_append csv
       (csv_row url (fst (run_lighthouse (lighthouse ev i) (report_timestamp ev i) url w))
          (row_timestamp ev i))
       (after_audit ev i url w)"

text \<open>
  The rows of a report, and the URL column of a report that starts with the header and
  whose rows have seven cells each.
\<close>

definition report_rows :: "string \<Rightarrow> world \<Rightarrow> pyval list list" where
  "report_rows path w = (case files w path of Some (Csv_file rows) \<Rightarrow> rows | _ \<Rightarrow> [])"

definition report_urls :: "string \<Rightarrow> world \<Rightarrow> pyval list option" where
  "report_urls path w =
     (case files w path of
        Some (Csv_file (h # rows)) \<Rightarrow>
          if h = csv_header \<and> list_all (\<lambda>r. length r = 7) rows then Some (map hd rows) else None
      | _ \<Rightarrow> None)"


text \<open>
  A sitemap with one \<open>url\<close> element per location, each with one \<open>loc\<close> child; the
  argument \<open>q\<close> qualifies the tag names (with the namespace, or not at all).
\<close>

definition flat_sitemap :: "(string \<Rightarrow> string) \<Rightarrow> string option list \<Rightarrow> element" where
  "flat_sitemap q locs =
     Element (q ''urlset'') None
       (map (\<lambda>loc. Element (q ''url'') None [Element (q ''loc'') loc []]) locs)"

definition unqualified :: "string \<Rightarrow> string" where
  "unqualified name = name"

text \<open>
  The url/loc entries of a document, read off the tree: for every element below the root
  that is a \<open>url\<close> element, in document order, the texts of its \<open>loc\<close> children; the
  tags of the two kinds of element are the arguments.
\<close>

fun url_loc_texts :: "string \<Rightarrow> string \<Rightarrow> element \<Rightarrow> string option list" where
  "url_loc_texts url_tag loc_tag (Element t x cs) =
     concat (map (\<lambda>c. (if elem_tag c = url_tag
                        then map elem_text (filter (\<lambda>l. elem_tag l = loc_tag) (elem_children c))
                        else [])
                       @ url_loc_texts url_tag loc_tag c) cs)"

text \<open>
  The namespaced form of a document: every tag qualified with the namespace, as the parser
  delivers a document whose root declares the namespace as its default.
\<close>

fun qualify :: "string \<Rightarrow> element \<Rightarrow> element" where
  "qualify uri (Element t x cs) = Element (qname uri t) x (map (qualify uri) cs)"

subsection \<open>An example run\<close>

text \<open>
  A sitemap with two URLs. The first measurement succeeds, the second runs into the
  timeout.
\<close>

definition example_locs :: "string option list" where
  "example_locs = [Some ''https://example.com/a'', Some ''https://example.com/b'']"

definition example_http :: "string \<Rightarrow> http_result" where
  "example_http url = Response 200 (Some (flat_sitemap (qname sitemap_ns) example_locs))"

definition example_http_unqualified :: "string \<Rightarrow> http_result" where
  "example_http_unqualified url = Response 200 (Some (flat_sitemap unqualified example_locs))"

definition example_data :: json where
  "example_data =
     JObj [(''categories'', JObj [(''performance'', JObj
              [(''score'', JNum (PyFloat (Finite (5134103575202365 / 9007199254740992))))])]),
           (''audits'', JObj
              [(''speed-index'', JObj [(''numericValue'', JNum (PyInt 2567))]),
               (''largest-contentful-paint'', JObj [(''numericValue'', JNum (PyFloat (Finite (6283 / 2))))]),
               (''first-input-delay'', JObj [(''numericValue'', JNum (PyFloat (Finite (129 / 8))))]),
               (''cumulative-layout-shift'', JObj [(''numericValue'', JNum (PyFloat (Finite (3 / 16))))])])]"

definition example_lighthouse :: "nat \<Rightarrow> string \<Rightarrow> string \<Rightarrow> process_result" where
  "example_lighthouse i url output_file =
     (if i = 1 then Exited (Some (Some example_data)) else Timeout None)"

definition example_clock :: "nat \<Rightarrow> string" where
  "example_clock i = (if i = 1 then ''20240101_120001'' else ''20240101_120030'')"

definition example_row_clock :: "nat \<Rightarrow> string" where
  "example_row_clock i = (if i = 1 then ''2024-01-01 12:00:25'' else ''2024-01-01 12:03:30'')"

definition accept_all :: "string \<Rightarrow> bool" where
  "accept_all s = True"

text \<open>
  An operating system that has been up for an hour: a sleep whose deadline on the
  monotonic clock is 9223372036 seconds or more is rejected.
\<close>

definition example_os_sleep :: "nat \<Rightarrow> int \<Rightarrow> exn option" where
  "example_os_sleep i secs = (if 9223372036 \<le> 3600 + secs then Some OSError else None)"

definition example_env :: env where
  "example_env =
     \<lparr>urllib = \<lparr>check_bracketed_host = accept_all, checknetloc = accept_all\<rparr>,
      http_get = example_http,
      lighthouse = example_lighthouse,
      run_timestamp = ''20240101_120000'',
      report_timestamp = example_clock,
      row_timestamp = example_row_clock,
      os_sleep = example_os_sleep\<rparr>"

definition example_url :: string where
  "example_url = ''https://www.example.com:443/sitemap.xml''"

definition example_csv :: string where
  "example_csv = ''example.com_pagespeed_20240101_120000.csv''"

definition empty_world :: world where
  "empty_world = \<lparr>files = Map.empty, sleeps = []\<rparr>"

text \<open>A Lighthouse process that exits after writing a text that is not JSON.\<close>

definition garbled_lighthouse :: "string \<Rightarrow> string \<Rightarrow> process_result" where
  "garbled_lighthouse url output_file = Exited (Some None)"

text \<open>Three ways for the sitemap request to fail.\<close>

definition failed_http :: "string \<Rightarrow> http_result" where
  "failed_http url = Failed"

definition not_found_http :: "string \<Rightarrow> http_result" where
  "not_found_http url = Response 404 (Some (flat_sitemap (qname sitemap_ns) example_locs))"

definition malformed_http :: "string \<Rightarrow> http_result" where
  "malformed_http url = Response 200 None"

definition offline_env :: env where
  "offline_env = example_env\<lparr>http_get := failed_http\<rparr>"


definition null_score_data :: json where
  "null_score_data =
     JObj [(''categories'', JObj [(''performance'', JObj [(''score'', JNull)])]),
           (''audits'', JObj [(''speed-index'', JObj [(''numericValue'', JNum (PyInt 2567))])])]"

definition null_score_lighthouse :: "string \<Rightarrow> string \<Rightarrow> process_result" where
  "null_score_lighthouse url output_file = Exited (Some (Some null_score_data))"

text \<open>
  An output with an interaction-to-next-paint value and a first-input-delay value that is
  not a number, and nothing else.
\<close>

definition inp_data :: json where
  "inp_data =
     JObj [(''audits'', JObj
              [(''interaction-to-next-paint'', JObj [(''numericValue'', JNum (PyInt 200))]),
               (''first-input-delay'', JObj [(''numericValue'', JStr ''n/a'')])])]"

text \<open>A response with status 300 whose body is the example sitemap.\<close>

definition multiple_choices_http :: "string \<Rightarrow> http_result" where
  "multiple_choices_http url = Response 300 (Some (flat_sitemap (qname sitemap_ns) example_locs))"

text \<open>
  A sitemap whose \<open>url\<close> elements have further children, written without the namespace,
  and the responses that serve it in its namespaced form and as it is.
\<close>

definition detailed_sitemap :: element where
  "detailed_sitemap =
     Element ''urlset'' None
       [Element ''url'' None
          [Element ''loc'' (Some ''https://example.com/a'') [],
           Element ''lastmod'' (Some ''2024-01-01'') []],
        Element ''url'' None
          [Element ''changefreq'' (Some ''daily'') [],
           Element ''loc'' (Some ''https://example.com/b'') [],
           Element ''priority'' (Some ''0.5'') []]]"

definition detailed_http :: "string \<Rightarrow> http_result" where
  "detailed_http url = Response 200 (Some (qualify sitemap_ns detailed_sitemap))"

definition detailed_http_unqualified :: "string \<Rightarrow> http_result" where
  "detailed_http_unqualified url = Response 200 (Some detailed_sitemap)"



subsection \<open>The fields that the extraction reads\<close>

text \<open>
  The value found in a JSON value by following keys through nested objects, and the
  number found there. A field is absent when a key on its path is missing.
\<close>

fun lookup_path :: "json \<Rightarrow> string list \<Rightarrow> json option" where
  "lookup_path v [] = Some v"
| "lookup_path (JObj kvs) (k # ks) =
     (case map_of kvs k of None \<Rightarrow> None | Some v \<Rightarrow> lookup_path v ks)"
| "lookup_path v (k # ks) = None"

definition number_at :: "json option \<Rightarrow> pynum option" where
  "number_at x =
     (case x of
        None \<Rightarrow> None
      | Some v \<Rightarrow> (case as_number v of Inl e \<Rightarrow> None | Inr n \<Rightarrow> Some n))"

definition raw_number :: "json \<Rightarrow> string list \<Rightarrow> pynum option" where
  "raw_number data path = number_at (lookup_path data path)"

definition absent_or_object :: "json option \<Rightarrow> bool" where
  "absent_or_object x = (case x of None \<Rightarrow> True | Some (JObj kvs) \<Rightarrow> True | Some v \<Rightarrow> False)"

definition absent_or_number :: "json option \<Rightarrow> bool" where
  "absent_or_number x = (case x of None \<Rightarrow> True | Some v \<Rightarrow> \<not> isl (as_number v))"

text \<open>A number with a quotient by 1000 that is not too large for a float.\<close>

definition absent_or_millis :: "json option \<Rightarrow> bool" where
  "absent_or_millis x =
     (case x of
        None \<Rightarrow> True
      | Some v \<Rightarrow> (case as_number v of Inl e \<Rightarrow> False | Inr n \<Rightarrow> \<not> isl (py_truediv n 1000)))"

text \<open>
  The output of the tool has the expected shape: it is an object; \<open>audits\<close>,
  \<open>categories\<close>, the performance category and the five audits are objects where they are
  present; the score and the values read are numbers where they are present (the
  first-input-delay value needs to be one only when the interaction-to-next-paint value
  is absent).
\<close>

definition well_shaped :: "json \<Rightarrow> bool" where
  "well_shaped data =
     (absent_or_object (Some data)
      \<and> absent_or_object (lookup_path data [''audits''])
      \<and> absent_or_object (lookup_path data [''categories''])
      \<and> absent_or_object (lookup_path data [''categories'', ''performance''])
      \<and> absent_or_object (lookup_path data [''audits'', ''speed-index''])
      \<and> absent_or_object (lookup_path data [''audits'', ''largest-contentful-paint''])
      \<and> absent_or_object (lookup_path data [''audits'', ''interaction-to-next-paint''])
      \<and> absent_or_object (lookup_path data [''audits'', ''first-input-delay''])
      \<and> absent_or_object (lookup_path data [''audits'', ''cumulative-layout-shift''])
      \<and> absent_or_number (lookup_path data [''categories'', ''performance'', ''score''])
      \<and> absent_or_millis (lookup_path data [''audits'', ''speed-index'', ''numericValue''])
      \<and> absent_or_millis (lookup_path data [''audits'', ''largest-contentful-paint'', ''numericValue''])
      \<and> absent_or_number (lookup_path data [''audits'', ''interaction-to-next-paint'', ''numericValue''])
      \<and> (lookup_path data [''audits'', ''interaction-to-next-paint'', ''numericValue''] = None
           \<longrightarrow> absent_or_number (lookup_path data [''audits'', ''first-input-delay'', ''numericValue'']))
      \<and> absent_or_number (lookup_path data [''audits'', ''cumulative-layout-shift'', ''numericValue'']))"

text \<open>The items of the object under a key; none when the key is missing.\<close>

definition sub_items :: "(string \<times> json) list \<Rightarrow> string \<Rightarrow> (string \<times> json) list" where
  "sub_items kvs k = (case map_of kvs k of Some (JObj items) \<Rightarrow> items | _ \<Rightarrow> [])"

section \<open>Properties\<close>

subsection \<open>String helpers\<close>

lemma py_split_from_nonempty: "py_split_from sep piece s \<noteq> []"
  by (induction sep piece s rule: py_split_from.induct) auto

lemma py_split_nonempty: "py_split sep s \<noteq> []"
  by (simp add: py_split_def py_split_from_nonempty)

lemma report_name_not_artifact:
  assumes "report_name lib u ts = Inr path"
  shows "path \<noteq> lighthouse_report ts'"
proof
  assume "path = lighthouse_report ts'"
  then have "last path = last (lighthouse_report ts')" by simp
  moreover from assms obtain d where "path = d @ ''_pagespeed_'' @ ts @ ''.csv''"
    by (auto simp: report_name_def bind_exn_def split: sum.splits)
  ultimately show False by (simp add: lighthouse_report_def)
qed

lemma output_csv_eq:
  "report_name (urllib ev) sitemap_url (run_timestamp ev) = Inr path \<Longrightarrow>
   output_csv ev sitemap_url = path"
  by (simp add: output_csv_def)

subsection \<open>The audit and the loop: frame and invariants\<close>

lemma run_lighthouse_try_files:
  "path \<noteq> lighthouse_report ts \<Longrightarrow> files (snd (run_lighthouse_try sr ts url w)) path = files w path"
  by (auto simp: run_lighthouse_try_def Let_def write_report_def os_remove_def
      split: option.splits process_result.splits sum.splits)


lemma run_lighthouse_snd:
  "snd (run_lighthouse sr ts url w) = snd (run_lighthouse_try sr ts url w)"
  by (auto simp: run_lighthouse_def split: prod.splits sum.splits exn.splits)



lemma run_lighthouse_files:
  "path \<noteq> lighthouse_report ts \<Longrightarrow> files (snd (run_lighthouse sr ts url w)) path = files w path"
  by (simp add: run_lighthouse_snd run_lighthouse_try_files)


lemma report_urls_cong: "files w' path = files w path \<Longrightarrow> report_urls path w' = report_urls path w"
  by (simp add: report_urls_def)

lemma report_urls_append:
  "report_urls path w = Some us \<Longrightarrow>
   report_urls path (open_append path (csv_row url result now) w) = Some (us @ [url_cell url])"
  by (auto simp: report_urls_def open_append_def csv_row_def
      split: option.splits file_content.splits list.splits if_splits)

lemma report_urls_sleep:
  "time_sleep system_call delay w = Inr w' \<Longrightarrow> report_urls path w' = report_urls path w"
  by (auto simp: time_sleep_def report_urls_def split: option.splits)

lemma report_urls_created: "report_urls path (open_write path csv_header w) = Some []"
  by (simp add: report_urls_def open_write_def)

lemma measure_loop_prefix:
  assumes "\<forall>ts. csv \<noteq> lighthouse_report ts"
    and "report_urls csv w = Some (map url_cell pre)"
    and "i = Suc (length pre)"
    and "measure_loop ev csv delay n i rest w = (out, trace)"
    and "(s, w') \<in> set trace"
  shows "rows_done s \<le> length (pre @ rest)
       \<and> report_urls csv w' = Some (map url_cell (take (rows_done s) (pre @ rest)))"
  using assms
proof (induction rest arbitrary: pre i w out trace)
  case Nil
  then show ?case by simp
next
  case (Cons url rest)
  obtain result w1 where r: "run_lighthouse (lighthouse ev i) (report_timestamp ev i) url w = (result, w1)"
    by (cases "run_lighthouse (lighthouse ev i) (report_timestamp ev i) url w")
  define w2 where "w2 = open_append csv (csv_row url result (row_timestamp ev i)) w1"
  have f1: "files w1 csv = files w csv"
    using run_lighthouse_files [of csv "report_timestamp ev i" "lighthouse ev i" url w] Cons.prems(1) r
    by simp
  have u1: "report_urls csv w1 = Some (map url_cell pre)"
    using report_urls_cong [OF f1] Cons.prems(2) by simp
  have u2: "report_urls csv w2 = Some (map url_cell (pre @ [url]))"
    unfolding w2_def using report_urls_append [OF u1] by simp
  have i: "i = Suc (length pre)" by (rule Cons.prems(3))
  have here1: "rows_done (Measured i) \<le> length (pre @ url # rest)
       \<and> report_urls csv w1 = Some (map url_cell (take (rows_done (Measured i)) (pre @ url # rest)))"
    using u1 i by simp
  have here2: "rows_done (Appended i) \<le> length (pre @ url # rest)
       \<and> report_urls csv w2 = Some (map url_cell (take (rows_done (Appended i)) (pre @ url # rest)))"
    using u2 i by simp
  show ?case
  proof (cases "i < n")
    case True
    show ?thesis
    proof (cases "time_sleep (os_sleep ev i) delay w2")
      case (Inl e)
      with True r Cons.prems(4) have "trace = [(Measured i, w1), (Appended i, w2)]"
        by (simp add: w2_def)
      with Cons.prems(5) here1 here2 show ?thesis by auto
    next
      case (Inr w3)
      obtain out' trace' where rec: "measure_loop ev csv delay n (i + 1) rest w3 = (out', trace')"
        by (cases "measure_loop ev csv delay n (i + 1) rest w3")
      with True r Inr Cons.prems(4)
      have tr: "trace = (Measured i, w1) # (Appended i, w2) # (Slept i, w3) # trace'"
        by (simp add: w2_def)
      have u3: "report_urls csv w3 = Some (map url_cell (pre @ [url]))"
        using report_urls_sleep [OF Inr] u2 by simp
      have here3: "rows_done (Slept i) \<le> length (pre @ url # rest)
         \<and> report_urls csv w3 = Some (map url_cell (take (rows_done (Slept i)) (pre @ url # rest)))"
        using u3 i by simp
      have later: "(s, w') \<in> set trace' \<Longrightarrow> ?thesis"
        using Cons.IH [where pre = "pre @ [url]" and w = w3 and i = "i + 1" and out = out' and trace = trace'] Cons.prems(1) u3 i rec by simp
      from Cons.prems(5) tr here1 here2 here3 later show ?thesis by auto
    qed
  next
    case False
    obtain out' trace' where rec: "measure_loop ev csv delay n (i + 1) rest w2 = (out', trace')"
      by (cases "measure_loop ev csv delay n (i + 1) rest w2")
    with False r Cons.prems(4)
    have tr: "trace = (Measured i, w1) # (Appended i, w2) # trace'"
      by (simp add: w2_def)
    have later: "(s, w') \<in> set trace' \<Longrightarrow> ?thesis"
      using Cons.IH [where pre = "pre @ [url]" and w = w2 and i = "i + 1" and out = out' and trace = trace'] Cons.prems(1) u2 i rec by simp
    from Cons.prems(5) tr here1 here2 later show ?thesis by auto
  qed
qed




lemma measure_loop_Cons:
  "measure_loop ev csv delay n i (url # rest) w =
     (let w1 = after_audit ev i url w; w2 = after_append ev csv i url w;
          w3 = w2\<lparr>sleeps := sleeps w2 @ [delay]\<rparr>
      in if i < n then
           (case sleep_error (os_sleep ev i) delay of
              Some e \<Rightarrow> (Raised e, [(Measured i, w1), (Appended i, w2)])
            | None \<Rightarrow>
                (fst (measure_loop ev csv delay n (Suc i) rest w3),
                 (Measured i, w1) # (Appended i, w2) # (Slept i, w3)
                   # snd (measure_loop ev csv delay n (Suc i) rest w3)))
         else (fst (measure_loop ev csv delay n (Suc i) rest w2),
               (Measured i, w1) # (Appended i, w2) # snd (measure_loop ev csv delay n (Suc i) rest w2)))"
  by (simp add: Let_def time_sleep_def after_audit_def after_append_def
      split: prod.splits option.splits)



lemma measure_loop_returns:
  "\<forall>j. i \<le> j \<longrightarrow> j < n \<longrightarrow> sleep_error (os_sleep ev j) delay = None \<Longrightarrow>
   fst (measure_loop ev csv delay n i rest w) = Returned"
proof (induction rest arbitrary: i w)
  case Nil
  then show ?case by simp
next
  case (Cons url rest)
  have later: "\<forall>j. Suc i \<le> j \<longrightarrow> j < n \<longrightarrow> sleep_error (os_sleep ev j) delay = None"
    using Cons.prems by simp
  have here: "i < n \<longrightarrow> sleep_error (os_sleep ev i) delay = None"
    using Cons.prems by simp
  show ?case
    using Cons.IH [OF later] here
    by (simp add: measure_loop_Cons Let_def del: measure_loop.simps)
qed





lemma measure_loop_nonempty: "rest \<noteq> [] \<Longrightarrow> snd (measure_loop ev csv delay n i rest w) \<noteq> []"
  by (cases rest) (simp_all add: measure_loop_Cons Let_def split: option.splits del: measure_loop.simps)





lemma measure_loop_Cons_Returned:
  assumes "fst (measure_loop ev csv delay n i (url # rest) w) = Returned"
  obtains w' where "files w' = files (after_append ev csv i url w)"
    and "fst (measure_loop ev csv delay n (Suc i) rest w') = Returned"
    and "snd (measure_loop ev csv delay n i (url # rest) w) =
           (Measured i, after_audit ev i url w) # (Appended i, after_append ev csv i url w)
             # (if i < n then [(Slept i, w')] else []) @ snd (measure_loop ev csv delay n (Suc i) rest w')"
    and "rest = [] \<longrightarrow> files (snd (last (snd (measure_loop ev csv delay n i (url # rest) w))))
           = files (after_append ev csv i url w)"
proof (cases "i < n")
  case True
  with assms have d: "sleep_error (os_sleep ev i) delay = None"
    by (cases "sleep_error (os_sleep ev i) delay")
       (simp_all add: measure_loop_Cons Let_def del: measure_loop.simps)
  define w3 where "w3 = (after_append ev csv i url w)\<lparr>sleeps := sleeps (after_append ev csv i url w) @ [delay]\<rparr>"
  show ?thesis
  proof (rule that [of w3])
    show "files w3 = files (after_append ev csv i url w)" by (simp add: w3_def)
    show "fst (measure_loop ev csv delay n (Suc i) rest w3) = Returned"
      using assms True d by (simp add: measure_loop_Cons Let_def w3_def del: measure_loop.simps)
    show "snd (measure_loop ev csv delay n i (url # rest) w) =
           (Measured i, after_audit ev i url w) # (Appended i, after_append ev csv i url w)
             # (if i < n then [(Slept i, w3)] else []) @ snd (measure_loop ev csv delay n (Suc i) rest w3)"
      using True d by (simp add: measure_loop_Cons Let_def w3_def del: measure_loop.simps)
    show "rest = [] \<longrightarrow> files (snd (last (snd (measure_loop ev csv delay n i (url # rest) w))))
           = files (after_append ev csv i url w)"
      using True d by (simp add: measure_loop_Cons Let_def del: measure_loop.simps(2))
  qed
next
  case False
  show ?thesis
  proof (rule that [of "after_append ev csv i url w"])
    show "files (after_append ev csv i url w) = files (after_append ev csv i url w)" by simp
    show "fst (measure_loop ev csv delay n (Suc i) rest (after_append ev csv i url w)) = Returned"
      using assms False by (simp add: measure_loop_Cons Let_def del: measure_loop.simps)
    show "snd (measure_loop ev csv delay n i (url # rest) w) =
           (Measured i, after_audit ev i url w) # (Appended i, after_append ev csv i url w)
             # (if i < n then [(Slept i, after_append ev csv i url w)] else [])
             @ snd (measure_loop ev csv delay n (Suc i) rest (after_append ev csv i url w))"
      using False by (simp add: measure_loop_Cons Let_def del: measure_loop.simps)
    show "rest = [] \<longrightarrow> files (snd (last (snd (measure_loop ev csv delay n i (url # rest) w))))
           = files (after_append ev csv i url w)"
      using False by (simp add: measure_loop_Cons Let_def del: measure_loop.simps(2))
  qed
qed


lemma measure_loop_last_step:
  assumes "i + length rest = Suc n" and "rest \<noteq> []"
    and "fst (measure_loop ev csv delay n i rest w) = Returned"
  shows "fst (last (snd (measure_loop ev csv delay n i rest w))) = Appended n"
  using assms
proof (induction rest arbitrary: i w)
  case Nil
  then show ?case by simp
next
  case (Cons url rest)
  from Cons.prems(3) obtain w' where
    ret: "fst (measure_loop ev csv delay n (Suc i) rest w') = Returned"
    and tr: "snd (measure_loop ev csv delay n i (url # rest) w) =
           (Measured i, after_audit ev i url w) # (Appended i, after_append ev csv i url w)
             # (if i < n then [(Slept i, w')] else []) @ snd (measure_loop ev csv delay n (Suc i) rest w')"
    by (rule measure_loop_Cons_Returned)
  show ?case
  proof (cases "rest = []")
    case True
    with Cons.prems(1) have "i = n" by simp
    with True tr show ?thesis by simp
  next
    case False
    have ne: "snd (measure_loop ev csv delay n (Suc i) rest w') \<noteq> []"
      using False by (rule measure_loop_nonempty)
    have "fst (last (snd (measure_loop ev csv delay n (Suc i) rest w'))) = Appended n"
      using Cons.IH [of "Suc i" w'] Cons.prems(1) False ret by simp
    with tr ne show ?thesis by simp
  qed
qed


subsection \<open>Runs of \<open>main\<close>\<close>

lemma main_raised:
  "report_name (urllib ev) sitemap_url (run_timestamp ev) = Inl e \<Longrightarrow>
   main ev sitemap_url delay w = (Raised e, [(Started, w)])"
  by (simp add: main_def)

lemma main_empty:
  "report_name (urllib ev) sitemap_url (run_timestamp ev) = Inr path \<Longrightarrow>
   get_urls_from_sitemap (http_get ev) sitemap_url = [] \<Longrightarrow>
   main ev sitemap_url delay w = (Returned, [(Started, w)])"
  by (simp add: main_def)

lemma main_empty_trace:
  "get_urls_from_sitemap (http_get ev) sitemap_url = [] \<Longrightarrow>
   snd (main ev sitemap_url delay w) = [(Started, w)]"
  by (simp add: main_def split: sum.splits)

lemma main_named:
  assumes "fst (main ev sitemap_url delay w) = Returned \<or> tl (snd (main ev sitemap_url delay w)) \<noteq> []"
  shows "\<exists>path. report_name (urllib ev) sitemap_url (run_timestamp ev) = Inr path"
  using assms
  by (cases "report_name (urllib ev) sitemap_url (run_timestamp ev)") (auto simp: main_raised)

lemma main_nonempty:
  assumes "report_name (urllib ev) sitemap_url (run_timestamp ev) = Inr path"
    and "get_urls_from_sitemap (http_get ev) sitemap_url \<noteq> []"
  shows "main ev sitemap_url delay w =
     (fst (measure_loop ev (output_csv ev sitemap_url) delay
             (length (get_urls_from_sitemap (http_get ev) sitemap_url)) 1
             (get_urls_from_sitemap (http_get ev) sitemap_url)
             (open_write (output_csv ev sitemap_url) csv_header w)),
      (Started, w)
        # (Created, open_write (output_csv ev sitemap_url) csv_header w)
        # snd (measure_loop ev (output_csv ev sitemap_url) delay
             (length (get_urls_from_sitemap (http_get ev) sitemap_url)) 1
             (get_urls_from_sitemap (http_get ev) sitemap_url)
             (open_write (output_csv ev sitemap_url) csv_header w)))"
  using assms by (simp add: main_def output_csv_def Let_def split: prod.splits)

lemma main_returns:
  assumes "\<forall>i \<in> {1..<length (get_urls_from_sitemap (http_get ev) sitemap_url)}.
             sleep_error (os_sleep ev i) delay = None"
    and "report_name (urllib ev) sitemap_url (run_timestamp ev) = Inr path"
  shows "fst (main ev sitemap_url delay w) = Returned"
proof (cases "get_urls_from_sitemap (http_get ev) sitemap_url = []")
  case True
  then show ?thesis by (simp add: main_empty [OF assms(2)])
next
  case False
  have "\<forall>j. 1 \<le> j \<longrightarrow> j < length (get_urls_from_sitemap (http_get ev) sitemap_url) \<longrightarrow>
          sleep_error (os_sleep ev j) delay = None"
    using assms(1) by simp
  then show ?thesis
    using False by (simp add: main_nonempty [OF assms(2)] measure_loop_returns)
qed




lemma main_prefix:
  assumes "(s, w') \<in> set (tl (snd (main ev sitemap_url delay w)))"
  shows "rows_done s \<le> length (get_urls_from_sitemap (http_get ev) sitemap_url)
       \<and> report_urls (output_csv ev sitemap_url) w'
           = Some (map url_cell (take (rows_done s) (get_urls_from_sitemap (http_get ev) sitemap_url)))"
proof (cases "get_urls_from_sitemap (http_get ev) sitemap_url = []")
  case True
  with assms show ?thesis by (simp add: main_empty_trace)
next
  case False
  from assms have "tl (snd (main ev sitemap_url delay w)) \<noteq> []" by auto
  then obtain path where name: "report_name (urllib ev) sitemap_url (run_timestamp ev) = Inr path"
    using main_named [of ev sitemap_url delay w] by blast
  define csv where "csv = output_csv ev sitemap_url"
  define urls where "urls = get_urls_from_sitemap (http_get ev) sitemap_url"
  define w0 where "w0 = open_write csv csv_header w"
  have disj: "\<forall>ts. csv \<noteq> lighthouse_report ts"
    using report_name_not_artifact [OF name] by (simp add: csv_def output_csv_eq [OF name])
  have u0: "report_urls csv w0 = Some (map url_cell [])"
    by (simp add: w0_def report_urls_created)
  from assms False
  consider "(s, w') = (Created, w0)" | "(s, w') \<in> set (snd (measure_loop ev csv delay (length urls) 1 urls w0))"
    by (auto simp: main_nonempty [OF name] csv_def urls_def w0_def)
  then show ?thesis
  proof cases
    case 1
    with u0 show ?thesis by (simp add: csv_def)
  next
    case 2
    have "rows_done s \<le> length ([] @ urls)
       \<and> report_urls csv w' = Some (map url_cell (take (rows_done s) ([] @ urls)))"
    proof (rule measure_loop_prefix [OF disj u0 _ _ 2])
      show "1 = Suc (length [])" by simp
      show "measure_loop ev csv delay (length urls) 1 urls w0
              = (fst (measure_loop ev csv delay (length urls) 1 urls w0),
                 snd (measure_loop ev csv delay (length urls) 1 urls w0))" by simp
    qed
    then show ?thesis by (simp add: csv_def urls_def)
  qed
qed

lemma main_last_step:
  assumes "get_urls_from_sitemap (http_get ev) sitemap_url \<noteq> []"
    and "fst (main ev sitemap_url delay w) = Returned"
  shows "fst (last (snd (main ev sitemap_url delay w)))
           = Appended (length (get_urls_from_sitemap (http_get ev) sitemap_url))"
proof -
  obtain path where name: "report_name (urllib ev) sitemap_url (run_timestamp ev) = Inr path"
    using main_named [of ev sitemap_url delay w] assms(2) by auto
  define csv where "csv = output_csv ev sitemap_url"
  define urls where "urls = get_urls_from_sitemap (http_get ev) sitemap_url"
  define w0 where "w0 = open_write csv csv_header w"
  have ne: "urls \<noteq> []" using assms(1) by (simp add: urls_def)
  have ret: "fst (measure_loop ev csv delay (length urls) 1 urls w0) = Returned"
    using assms by (simp add: main_nonempty [OF name] csv_def urls_def w0_def)
  have "fst (last (snd (measure_loop ev csv delay (length urls) 1 urls w0))) = Appended (length urls)"
    using ne ret by (intro measure_loop_last_step) simp_all
  moreover have "snd (measure_loop ev csv delay (length urls) 1 urls w0) \<noteq> []"
    using ne by (rule measure_loop_nonempty)
  ultimately show ?thesis
    using assms(1) by (simp add: main_nonempty [OF name] csv_def urls_def w0_def)
qed

lemma example_urls: "get_urls_from_sitemap (http_get example_env) example_url = example_locs"
  by (simp add: example_env_def example_http_def get_urls_from_sitemap_def
      get_urls_from_sitemap_try_def raise_for_status_def fromstring_def bind_exn_def
      findall_url_loc_def select_child_def select_descendant_def flat_sitemap_def
      example_locs_def qname_def)

lemma example_report_name:
  "report_name (urllib example_env) example_url (run_timestamp example_env) = Inr example_csv"
  by (simp add: example_env_def example_url_def example_csv_def report_name_def
      extract_domain_def py_split_def urlparse_netloc_def is_ascii_alpha_def scheme_chars_def
      bind_exn_def)

lemma example_name: "output_csv example_env example_url = example_csv"
  using example_report_name by (rule output_csv_eq)

lemma offline_report_name:
  "report_name (urllib offline_env) example_url (run_timestamp offline_env) = Inr example_csv"
  using example_report_name by (simp add: offline_env_def)

lemma example_created:
  "(Created, open_write example_csv csv_header empty_world)
     \<in> set (tl (snd (main example_env example_url delay empty_world)))"
  using main_nonempty [OF example_report_name, of delay empty_world]
  by (simp add: example_urls example_name example_locs_def)

lemma example_returns:
  "0 \<le> delay \<Longrightarrow> delay < 9223368436 \<Longrightarrow>
   fst (main example_env example_url delay empty_world) = Returned"
  by (rule main_returns [OF _ example_report_name])
     (simp add: sleep_error_def example_env_def example_os_sleep_def)

lemma offline_urls: "get_urls_from_sitemap (http_get offline_env) url = []"
  by (simp add: offline_env_def failed_http_def get_urls_from_sitemap_def
      get_urls_from_sitemap_try_def)

lemma main_final_report:
  assumes "fst (main ev sitemap_url delay w) = Returned"
    and "get_urls_from_sitemap (http_get ev) sitemap_url \<noteq> []"
  shows "report_urls (output_csv ev sitemap_url)
           (snd (last (snd (main ev sitemap_url delay w))))
         = Some (map url_cell (get_urls_from_sitemap (http_get ev) sitemap_url))"
proof -
  have l: "fst (last (snd (main ev sitemap_url delay w)))
         = Appended (length (get_urls_from_sitemap (http_get ev) sitemap_url))"
    using assms by (simp add: main_last_step)
  obtain path where name: "report_name (urllib ev) sitemap_url (run_timestamp ev) = Inr path"
    using main_named [of ev sitemap_url delay w] assms(1) by auto
  have "last (snd (main ev sitemap_url delay w)) \<in> set (tl (snd (main ev sitemap_url delay w)))"
    using assms by (simp add: main_nonempty [OF name])
  then have "(fst (last (snd (main ev sitemap_url delay w))), snd (last (snd (main ev sitemap_url delay w))))
      \<in> set (tl (snd (main ev sitemap_url delay w)))" by simp
  from main_prefix [OF this] l show ?thesis by simp
qed

lemma report_urls_header: "report_urls path w = Some us \<Longrightarrow> hd (report_rows path w) = csv_header"
  by (auto simp: report_urls_def report_rows_def
      split: option.splits file_content.splits list.splits if_splits)

lemma report_urls_nil: "report_urls path w = Some [] \<Longrightarrow> report_rows path w = [csv_header]"
  by (auto simp: report_urls_def report_rows_def
      split: option.splits file_content.splits list.splits if_splits)

lemma csv_header_text:
  "csv_header =
     [PyStr ''URL'', PyStr ''Performance Score'', PyStr ''Speed Index (s)'', PyStr ''LCP (s)'',
      PyStr ''INP (ms)'', PyStr ''CLS'', PyStr ''Waktu Pengukuran'']"
  by (simp add: csv_header_def)







subsection \<open>The path \<open>.//ns:url/ns:loc\<close>\<close>

lemma findall_flat_qualified:
  "findall_url_loc (flat_sitemap (qname sitemap_ns) locs)
     = map (\<lambda>loc. Element (qname sitemap_ns ''loc'') loc []) locs"
  by (induction locs)
     (simp_all add: findall_url_loc_def select_child_def select_descendant_def flat_sitemap_def
        qname_def)

lemma select_descendant_none:
  assumes "list_all (\<lambda>e. elem_tag e \<noteq> t) (iter root_elem)"
  shows "select_descendant t [root_elem] = []"
proof -
  have "set (concat (map iter (elem_children root_elem))) \<subseteq> set (iter root_elem)"
    by (cases root_elem) auto
  with assms show ?thesis
    by (auto simp: select_descendant_def list_all_iff filter_empty_conv)
qed

lemma findall_no_url:
  "list_all (\<lambda>e. elem_tag e \<noteq> qname sitemap_ns ''url'') (iter root_elem) \<Longrightarrow>
   findall_url_loc root_elem = []"
  by (simp add: findall_url_loc_def select_descendant_none select_child_def)

lemma iter_flat_unqualified:
  "list_all (\<lambda>e. elem_tag e \<noteq> qname sitemap_ns ''url'') (iter (flat_sitemap unqualified locs))"
  by (induction locs) (simp_all add: flat_sitemap_def unqualified_def qname_def)

lemma qname_literal:
  "qname sitemap_ns ''url'' = ''{http://www.sitemaps.org/schemas/sitemap/0.9}url''"
  "qname sitemap_ns ''loc'' = ''{http://www.sitemaps.org/schemas/sitemap/0.9}loc''"
  by (simp_all add: qname_def sitemap_ns_def)

lemma select_child_append: "select_child t (a @ b) = select_child t a @ select_child t b"
  by (simp add: select_child_def)

lemma select_child_Cons:
  "select_child t (e # r) = filter (\<lambda>l. elem_tag l = t) (elem_children e) @ select_child t r"
  by (simp add: select_child_def)

lemma select_child_Nil: "select_child t [] = []"
  by (simp add: select_child_def)

lemma iter_unfold: "iter e = e # concat (map iter (elem_children e))"
  by (cases e) simp

lemma descendant_texts:
  "map elem_text (select_child lt (filter (\<lambda>e. elem_tag e = ut)
       (concat (map iter (elem_children root_elem)))))
     = url_loc_texts ut lt root_elem"
proof (induction root_elem)
  case (Element t x cs)
  have "map elem_text (select_child lt (filter (\<lambda>e. elem_tag e = ut) (concat (map iter ds))))
     = concat (map (\<lambda>c. (if elem_tag c = ut
                        then map elem_text (filter (\<lambda>l. elem_tag l = lt) (elem_children c))
                        else [])
                       @ url_loc_texts ut lt c) ds)"
    if "set ds \<subseteq> set cs" for ds
    using that
  proof (induction ds)
    case Nil
    show ?case by (simp add: select_child_Nil)
  next
    case (Cons d ds)
    have d: "d \<in> set cs" and ds: "set ds \<subseteq> set cs" using Cons.prems by simp_all
    have here: "map elem_text (select_child lt (filter (\<lambda>e. elem_tag e = ut) (iter d)))
        = (if elem_tag d = ut
           then map elem_text (filter (\<lambda>l. elem_tag l = lt) (elem_children d))
           else [])
          @ url_loc_texts ut lt d"
      using Element.IH [OF d]
      by (subst iter_unfold) (simp add: select_child_Cons)
    show ?case
      using here Cons.IH [OF ds] by (simp add: select_child_append)
  qed
  from this [of cs] show ?case by simp
qed

lemma findall_texts:
  "map elem_text (findall_url_loc root_elem)
     = url_loc_texts (qname sitemap_ns ''url'') (qname sitemap_ns ''loc'') root_elem"
  using descendant_texts [of "qname sitemap_ns ''loc''" "qname sitemap_ns ''url''" root_elem]
  by (simp add: findall_url_loc_def select_descendant_def)

lemma qname_inject: "qname uri a = qname uri b \<longleftrightarrow> a = b"
  by (simp add: qname_def)

lemma qualify_sel:
  "elem_tag (qualify uri e) = qname uri (elem_tag e)"
  "elem_text (qualify uri e) = elem_text e"
  "elem_children (qualify uri e) = map (qualify uri) (elem_children e)"
  by (cases e; simp)+

lemma url_loc_texts_qualify:
  "url_loc_texts (qname uri ut) (qname uri lt) (qualify uri doc) = url_loc_texts ut lt doc"
proof (induction doc)
  case (Element t x cs)
  have "(if elem_tag (qualify uri c) = qname uri ut
         then map elem_text (filter (\<lambda>l. elem_tag l = qname uri lt) (elem_children (qualify uri c)))
         else [])
        @ url_loc_texts (qname uri ut) (qname uri lt) (qualify uri c)
      = (if elem_tag c = ut
         then map elem_text (filter (\<lambda>l. elem_tag l = lt) (elem_children c))
         else [])
        @ url_loc_texts ut lt c"
    if "c \<in> set cs" for c
    using Element.IH [OF that]
    by (simp add: qualify_sel qname_inject filter_map comp_def)
  then show ?case
    by (simp add: comp_def cong: map_cong)
qed

lemma flat_sitemap_qualify:
  "flat_sitemap (qname uri) locs = qualify uri (flat_sitemap unqualified locs)"
  by (simp add: flat_sitemap_def unqualified_def comp_def)

lemma url_loc_texts_flat: "url_loc_texts ''url'' ''loc'' (flat_sitemap unqualified locs) = locs"
  by (induction locs) (simp_all add: flat_sitemap_def unqualified_def)

lemma detailed_sitemap_texts:
  "url_loc_texts ''url'' ''loc'' detailed_sitemap
     = [Some ''https://example.com/a'', Some ''https://example.com/b'']"
  by (simp add: detailed_sitemap_def)

lemma detailed_sitemap_unqualified:
  "list_all (\<lambda>e. elem_tag e \<noteq> qname sitemap_ns ''url'') (iter detailed_sitemap)"
  by (simp add: detailed_sitemap_def qname_def)

lemma multiple_choices_urls:
  "get_urls_from_sitemap multiple_choices_http u = example_locs"
  by (simp add: multiple_choices_http_def get_urls_from_sitemap_def get_urls_from_sitemap_try_def
      raise_for_status_def fromstring_def bind_exn_def findall_flat_qualified comp_def)

subsection \<open>Results of a measurement\<close>





lemma null_score_fails: "extract_metrics null_score_data = Inl TypeError"
  by (simp add: extract_metrics_def null_score_data_def py_get_def as_number_def bind_exn_def)


subsection \<open>Lookups with defaults\<close>

lemma py_get_sub:
  "absent_or_object (map_of kvs k) \<Longrightarrow> py_get (JObj kvs) k (JObj []) = Inr (JObj (sub_items kvs k))"
  by (auto simp: py_get_def sub_items_def absent_or_object_def split: option.splits json.splits)

lemma py_get_leaf:
  "py_get (JObj kvs) k d = Inr (case map_of kvs k of Some v \<Rightarrow> v | None \<Rightarrow> d)"
  by (simp add: py_get_def)

lemma lookup_path1: "lookup_path (JObj kvs) [k] = map_of kvs k"
  by (simp split: option.splits)

lemma lookup_path2:
  "absent_or_object (map_of kvs a) \<Longrightarrow>
   lookup_path (JObj kvs) (a # b # ks) = lookup_path (JObj (sub_items kvs a)) (b # ks)"
  by (auto simp: absent_or_object_def sub_items_def split: option.splits json.splits)

lemma bind_exn_Inr: "bind_exn (Inr x) f = f x"
  by (simp add: bind_exn_def)

lemma leaf_number:
  "absent_or_number x \<Longrightarrow>
   as_number (case x of Some v \<Rightarrow> v | None \<Rightarrow> JNum (PyInt 0))
     = Inr (case number_at x of None \<Rightarrow> PyInt 0 | Some n \<Rightarrow> n)"
  by (auto simp: absent_or_number_def number_at_def as_number_def isl_def
      split: option.splits sum.splits json.splits)

lemma millis_number: "absent_or_millis x \<Longrightarrow> absent_or_number x"
  by (auto simp: absent_or_millis_def absent_or_number_def split: option.splits sum.splits)

lemma zero_seconds: "py_truediv (PyInt 0) 1000 = Inr (PyFloat (Finite 0))"
  by (simp add: py_truediv_def int_truediv_def bind_exn_def)

lemma leaf_seconds:
  "absent_or_millis x \<Longrightarrow>
   py_truediv (case number_at x of None \<Rightarrow> PyInt 0 | Some n \<Rightarrow> n) 1000
     = Inr (case number_at x of None \<Rightarrow> PyFloat (Finite 0) | Some n \<Rightarrow> projr (py_truediv n 1000))"
  by (auto simp: absent_or_millis_def number_at_def zero_seconds isl_def
      split: option.splits sum.splits)

lemma leaf_fallback:
  assumes "absent_or_number x" and "x = None \<longrightarrow> absent_or_number y"
  shows "as_number (case x of Some v \<Rightarrow> v
                    | None \<Rightarrow> (case y of Some v \<Rightarrow> v | None \<Rightarrow> JNum (PyInt 0)))
     = Inr (case number_at x of Some n \<Rightarrow> n
            | None \<Rightarrow> (case number_at y of Some n \<Rightarrow> n | None \<Rightarrow> PyInt 0))"
proof (cases x)
  case None
  with assms(2) have "absent_or_number y" by simp
  from leaf_number [OF this] None show ?thesis by (simp add: number_at_def)
next
  case (Some v)
  with leaf_number [OF assms(1)] show ?thesis
    by (auto simp: number_at_def split: sum.splits)
qed

lemma py_round_int: "py_round (PyInt n) k = PyInt n"
  by (simp add: py_round_def)

lemma py_round_zero: "py_round (PyFloat (Finite 0)) k = PyFloat (Finite 0)"
  by (simp add: py_round_def float_round_def round_half_even_def)

lemma py_mul_zero: "py_mul (PyInt 0) k = PyInt 0"
  by (simp add: py_mul_def)

lemma example_data_shape: "well_shaped example_data"
  by code_simp

lemma empty_data_shape: "well_shaped (JObj [])"
  by code_simp

lemma example_data_fields:
  "raw_number example_data [''categories'', ''performance'', ''score'']
     = Some (PyFloat (Finite (5134103575202365 / 9007199254740992)))"
  "raw_number example_data [''audits'', ''speed-index'', ''numericValue''] = Some (PyInt 2567)"
  "raw_number example_data [''audits'', ''largest-contentful-paint'', ''numericValue'']
     = Some (PyFloat (Finite (6283 / 2)))"
  "raw_number example_data [''audits'', ''interaction-to-next-paint'', ''numericValue''] = None"
  "raw_number example_data [''audits'', ''first-input-delay'', ''numericValue'']
     = Some (PyFloat (Finite (129 / 8)))"
  "raw_number example_data [''audits'', ''cumulative-layout-shift'', ''numericValue'']
     = Some (PyFloat (Finite (3 / 16)))"
  by code_simp+

lemma inp_data_shape: "well_shaped inp_data"
  by code_simp

lemma inp_data_fields:
  "raw_number inp_data [''categories'', ''performance'', ''score''] = None"
  "raw_number inp_data [''audits'', ''speed-index'', ''numericValue''] = None"
  "raw_number inp_data [''audits'', ''largest-contentful-paint'', ''numericValue''] = None"
  "raw_number inp_data [''audits'', ''interaction-to-next-paint'', ''numericValue''] = Some (PyInt 200)"
  "raw_number inp_data [''audits'', ''cumulative-layout-shift'', ''numericValue''] = None"
  by code_simp+

lemma empty_data_fields: "raw_number (JObj []) (k # ks) = None"
  by (simp add: raw_number_def number_at_def)

lemma example_arithmetic:
  "py_round (py_mul (PyFloat (Finite (5134103575202365 / 9007199254740992))) 100) 1
     = PyFloat (Finite 57)"
  "py_truediv (PyInt 2567) 1000 = Inr (PyFloat (Finite (361273132608127 / 140737488355328)))"
  "py_round (PyFloat (Finite (361273132608127 / 140737488355328))) 2
     = PyFloat (Finite (5787125521171087 / 2251799813685248))"
  "py_truediv (PyFloat (Finite (6283 / 2))) 1000
     = Inr (PyFloat (Finite (7074029114692207 / 2251799813685248)))"
  "py_round (PyFloat (Finite (7074029114692207 / 2251799813685248))) 2
     = PyFloat (Finite (7070651414971679 / 2251799813685248))"
  "py_round (PyFloat (Finite (129 / 8))) 2
     = PyFloat (Finite (4537376624575775 / 281474976710656))"
  "py_round (PyFloat (Finite (3 / 16))) 3
     = PyFloat (Finite (3386706919782613 / 18014398509481984))"
  "py_round (py_mul (PyFloat (Finite (5134103575202365 / 9007199254740992))) 100) (Suc 0)
     = PyFloat (Finite 57)"
  "py_round (PyInt 200) 2 = PyInt 200"
  by code_simp+

lemma null_score_shape: "\<not> well_shaped null_score_data"
  by code_simp

subsection \<open>Outputs on which the extraction does not raise\<close>

lemma bind_exn_InrE:
  assumes "bind_exn m f = Inr y"
  obtains x where "m = Inr x" and "f x = Inr y"
  using assms by (cases m) (simp_all add: bind_exn_def)

lemma py_get_object:
  assumes "py_get obj k d = Inr v"
  obtains kvs where "obj = JObj kvs" and "v = (case map_of kvs k of Some v \<Rightarrow> v | None \<Rightarrow> d)"
  using assms by (cases obj) (auto simp: py_get_def)

lemma object_sub:
  "(case map_of kvs k of Some v \<Rightarrow> v | None \<Rightarrow> JObj []) = JObj items \<Longrightarrow>
   absent_or_object (map_of kvs k) \<and> sub_items kvs k = items"
  by (auto simp: absent_or_object_def sub_items_def split: option.splits)

lemma number_leaf_default:
  "as_number (case x of Some v \<Rightarrow> v | None \<Rightarrow> d) = Inr n \<Longrightarrow> absent_or_number x"
  by (cases x) (auto simp: absent_or_number_def)

lemma millis_leaf:
  "as_number (case x of Some v \<Rightarrow> v | None \<Rightarrow> d) = Inr n \<Longrightarrow> py_truediv n 1000 = Inr q \<Longrightarrow>
   absent_or_millis x"
  by (cases x) (auto simp: absent_or_millis_def)

lemma extract_metrics_shape:
  assumes "extract_metrics data = Inr m"
  shows "well_shaped data"
  using assms unfolding extract_metrics_def Let_def
proof (elim bind_exn_InrE)
  fix audits categories perf_category score score_n si_audit si_raw si_n speed_index
    lcp_audit lcp_raw lcp_n lcpv inp_audit fid_audit fid_raw inpv cls_audit clsv inp_n cls_n
  assume g1: "py_get data ''audits'' (JObj []) = Inr audits"
    and g2: "py_get data ''categories'' (JObj []) = Inr categories"
    and g3: "py_get categories ''performance'' (JObj []) = Inr perf_category"
    and g4: "py_get perf_category ''score'' (JNum (PyInt 0)) = Inr score"
    and n1: "as_number score = Inr score_n"
    and g5: "py_get audits ''speed-index'' (JObj []) = Inr si_audit"
    and g6: "py_get si_audit ''numericValue'' (JNum (PyInt 0)) = Inr si_raw"
    and n2: "as_number si_raw = Inr si_n"
    and d1: "py_truediv si_n 1000 = Inr speed_index"
    and g7: "py_get audits ''largest-contentful-paint'' (JObj []) = Inr lcp_audit"
    and g8: "py_get lcp_audit ''numericValue'' (JNum (PyInt 0)) = Inr lcp_raw"
    and n3: "as_number lcp_raw = Inr lcp_n"
    and d2: "py_truediv lcp_n 1000 = Inr lcpv"
    and g9: "py_get audits ''interaction-to-next-paint'' (JObj []) = Inr inp_audit"
    and g10: "py_get audits ''first-input-delay'' (JObj []) = Inr fid_audit"
    and g11: "py_get fid_audit ''numericValue'' (JNum (PyInt 0)) = Inr fid_raw"
    and g12: "py_get inp_audit ''numericValue'' fid_raw = Inr inpv"
    and g13: "py_get audits ''cumulative-layout-shift'' (JObj []) = Inr cls_audit"
    and g14: "py_get cls_audit ''numericValue'' (JNum (PyInt 0)) = Inr clsv"
    and n4: "as_number inpv = Inr inp_n"
    and n5: "as_number clsv = Inr cls_n"
  from g1 obtain top where data: "data = JObj top"
    and audits: "audits = (case map_of top ''audits'' of Some v \<Rightarrow> v | None \<Rightarrow> JObj [])"
    by (rule py_get_object)
  from g2 have categories: "categories = (case map_of top ''categories'' of Some v \<Rightarrow> v | None \<Rightarrow> JObj [])"
    by (simp add: data py_get_leaf)
  from g5 obtain akvs where a: "audits = JObj akvs" by (rule py_get_object)
  from g3 obtain ckvs where c: "categories = JObj ckvs" by (rule py_get_object)
  from g4 obtain pkvs where p: "perf_category = JObj pkvs" by (rule py_get_object)
  from g6 obtain si where s: "si_audit = JObj si" by (rule py_get_object)
  from g8 obtain lc where l: "lcp_audit = JObj lc" by (rule py_get_object)
  from g12 obtain ip where i: "inp_audit = JObj ip" by (rule py_get_object)
  from g11 obtain fd where f: "fid_audit = JObj fd" by (rule py_get_object)
  from g14 obtain cl where k: "cls_audit = JObj cl" by (rule py_get_object)
  have ao: "absent_or_object (map_of top ''audits'')" and akvs: "sub_items top ''audits'' = akvs"
    using object_sub [of top "''audits''" akvs] audits a by simp_all
  have co: "absent_or_object (map_of top ''categories'')" and ckvs: "sub_items top ''categories'' = ckvs"
    using object_sub [of top "''categories''" ckvs] categories c by simp_all
  have po: "absent_or_object (map_of ckvs ''performance'')" and pkvs: "sub_items ckvs ''performance'' = pkvs"
    using object_sub [of ckvs "''performance''" pkvs] g3 c p by (simp_all add: py_get_leaf)
  have so: "absent_or_object (map_of akvs ''speed-index'')" and si: "sub_items akvs ''speed-index'' = si"
    using object_sub [of akvs "''speed-index''" si] g5 a s by (simp_all add: py_get_leaf)
  have lo: "absent_or_object (map_of akvs ''largest-contentful-paint'')"
    and lc: "sub_items akvs ''largest-contentful-paint'' = lc"
    using object_sub [of akvs "''largest-contentful-paint''" lc] g7 a l by (simp_all add: py_get_leaf)
  have io: "absent_or_object (map_of akvs ''interaction-to-next-paint'')"
    and ip: "sub_items akvs ''interaction-to-next-paint'' = ip"
    using object_sub [of akvs "''interaction-to-next-paint''" ip] g9 a i by (simp_all add: py_get_leaf)
  have fo: "absent_or_object (map_of akvs ''first-input-delay'')"
    and fd: "sub_items akvs ''first-input-delay'' = fd"
    using object_sub [of akvs "''first-input-delay''" fd] g10 a f by (simp_all add: py_get_leaf)
  have clo: "absent_or_object (map_of akvs ''cumulative-layout-shift'')"
    and cl: "sub_items akvs ''cumulative-layout-shift'' = cl"
    using object_sub [of akvs "''cumulative-layout-shift''" cl] g13 a k by (simp_all add: py_get_leaf)
  have a2: "lookup_path (JObj top) (''audits'' # b # ks) = lookup_path (JObj akvs) (b # ks)" for b ks
    using lookup_path2 [OF ao] by (simp only: akvs)
  have c2: "lookup_path (JObj top) (''categories'' # b # ks) = lookup_path (JObj ckvs) (b # ks)" for b ks
    using lookup_path2 [OF co] by (simp only: ckvs)
  have p3: "lookup_path data [''categories'', ''performance'', ''score''] = map_of pkvs ''score''"
    unfolding data c2 using lookup_path2 [OF po] by (simp add: pkvs lookup_path1 del: lookup_path.simps)
  have s3: "lookup_path data [''audits'', ''speed-index'', ''numericValue''] = map_of si ''numericValue''"
    unfolding data a2 using lookup_path2 [OF so] by (simp add: si lookup_path1 del: lookup_path.simps)
  have l3: "lookup_path data [''audits'', ''largest-contentful-paint'', ''numericValue''] = map_of lc ''numericValue''"
    unfolding data a2 using lookup_path2 [OF lo] by (simp add: lc lookup_path1 del: lookup_path.simps)
  have i3: "lookup_path data [''audits'', ''interaction-to-next-paint'', ''numericValue''] = map_of ip ''numericValue''"
    unfolding data a2 using lookup_path2 [OF io] by (simp add: ip lookup_path1 del: lookup_path.simps)
  have f3: "lookup_path data [''audits'', ''first-input-delay'', ''numericValue''] = map_of fd ''numericValue''"
    unfolding data a2 using lookup_path2 [OF fo] by (simp add: fd lookup_path1 del: lookup_path.simps)
  have cl3: "lookup_path data [''audits'', ''cumulative-layout-shift'', ''numericValue''] = map_of cl ''numericValue''"
    unfolding data a2 using lookup_path2 [OF clo] by (simp add: cl lookup_path1 del: lookup_path.simps)
  have o0: "absent_or_object (Some data)" by (simp add: data absent_or_object_def)
  have o1: "absent_or_object (lookup_path data [''audits''])"
    unfolding data lookup_path1 by (rule ao)
  have o2: "absent_or_object (lookup_path data [''categories''])"
    unfolding data lookup_path1 by (rule co)
  have o3: "absent_or_object (lookup_path data [''categories'', ''performance''])"
    unfolding data c2 lookup_path1 by (rule po)
  have o4: "absent_or_object (lookup_path data [''audits'', ''speed-index''])"
    unfolding data a2 lookup_path1 by (rule so)
  have o5: "absent_or_object (lookup_path data [''audits'', ''largest-contentful-paint''])"
    unfolding data a2 lookup_path1 by (rule lo)
  have o6: "absent_or_object (lookup_path data [''audits'', ''interaction-to-next-paint''])"
    unfolding data a2 lookup_path1 by (rule io)
  have o7: "absent_or_object (lookup_path data [''audits'', ''first-input-delay''])"
    unfolding data a2 lookup_path1 by (rule fo)
  have o8: "absent_or_object (lookup_path data [''audits'', ''cumulative-layout-shift''])"
    unfolding data a2 lookup_path1 by (rule clo)
  have v1: "absent_or_number (map_of pkvs ''score'')"
    using g4 n1 p by (auto simp: py_get_leaf intro: number_leaf_default)
  have v2: "absent_or_millis (map_of si ''numericValue'')"
    using g6 n2 d1 s by (auto simp: py_get_leaf intro: millis_leaf)
  have v3: "absent_or_millis (map_of lc ''numericValue'')"
    using g8 n3 d2 l by (auto simp: py_get_leaf intro: millis_leaf)
  have v4: "absent_or_number (map_of ip ''numericValue'')"
    using g12 n4 i by (auto simp: py_get_leaf intro: number_leaf_default)
  have v5: "map_of ip ''numericValue'' = None \<longrightarrow> absent_or_number (map_of fd ''numericValue'')"
    using g11 g12 n4 i f by (auto simp: py_get_leaf intro: number_leaf_default)
  have v6: "absent_or_number (map_of cl ''numericValue'')"
    using g14 n5 k by (auto simp: py_get_leaf intro: number_leaf_default)
  show "well_shaped data"
    unfolding well_shaped_def p3 s3 l3 i3 f3 cl3
    using o0 o1 o2 o3 o4 o5 o6 o7 o8 v1 v2 v3 v4 v5 v6 by blast
qed

lemma run_lighthouse_ill_shaped:
  assumes "subprocess_run u (lighthouse_report ts) = Exited (Some (Some data))"
    and "isl (extract_metrics data)"
  shows "fst (run_lighthouse subprocess_run ts (Some u) w) = default_error_values"
  using assms
  by (auto simp: run_lighthouse_def run_lighthouse_try_def write_report_def json_load_def
      Let_def isl_def split: exn.splits)

subsection \<open>The result of the extraction on an output of the expected shape\<close>

lemma extract_metrics_well_shaped:
  assumes "well_shaped data"
  shows "extract_metrics data = Inr
     \<lparr>performance = PyNum
        (case raw_number data [''categories'', ''performance'', ''score''] of
           None \<Rightarrow> PyInt 0
         | Some score \<Rightarrow> py_round (py_mul score 100) 1),
      speed_index = PyNum
        (case raw_number data [''audits'', ''speed-index'', ''numericValue''] of
           None \<Rightarrow> PyFloat (Finite 0)
         | Some v \<Rightarrow> py_round (projr (py_truediv v 1000)) 2),
      lcp = PyNum
        (case raw_number data [''audits'', ''largest-contentful-paint'', ''numericValue''] of
           None \<Rightarrow> PyFloat (Finite 0)
         | Some v \<Rightarrow> py_round (projr (py_truediv v 1000)) 2),
      inp = PyNum
        (case raw_number data [''audits'', ''interaction-to-next-paint'', ''numericValue''] of
           Some v \<Rightarrow> py_round v 2
         | None \<Rightarrow>
            (case raw_number data [''audits'', ''first-input-delay'', ''numericValue''] of
               Some v \<Rightarrow> py_round v 2
             | None \<Rightarrow> PyInt 0)),
      cls = PyNum
        (case raw_number data [''audits'', ''cumulative-layout-shift'', ''numericValue''] of
           None \<Rightarrow> PyInt 0
         | Some v \<Rightarrow> py_round v 3)\<rparr>"
proof -
  from assms obtain top where data: "data = JObj top"
    by (auto simp: well_shaped_def absent_or_object_def split: json.splits)
  define akvs where "akvs = sub_items top ''audits''"
  define ckvs where "ckvs = sub_items top ''categories''"
  define pkvs where "pkvs = sub_items ckvs ''performance''"
  define si where "si = sub_items akvs ''speed-index''"
  define lc where "lc = sub_items akvs ''largest-contentful-paint''"
  define ip where "ip = sub_items akvs ''interaction-to-next-paint''"
  define fd where "fd = sub_items akvs ''first-input-delay''"
  define cl where "cl = sub_items akvs ''cumulative-layout-shift''"
  note ws = assms [unfolded well_shaped_def data]
  have ao: "absent_or_object (map_of top ''audits'')"
    using ws by (simp add: lookup_path1 del: lookup_path.simps)
  have co: "absent_or_object (map_of top ''categories'')"
    using ws by (simp add: lookup_path1 del: lookup_path.simps)
  have a2: "lookup_path (JObj top) (''audits'' # b # ks) = lookup_path (JObj akvs) (b # ks)" for b ks
    unfolding akvs_def using ao by (rule lookup_path2)
  have c2: "lookup_path (JObj top) (''categories'' # b # ks) = lookup_path (JObj ckvs) (b # ks)" for b ks
    unfolding ckvs_def using co by (rule lookup_path2)
  have po: "absent_or_object (map_of ckvs ''performance'')"
    using ws by (simp add: c2 lookup_path1 del: lookup_path.simps)
  have so: "absent_or_object (map_of akvs ''speed-index'')"
    and lo: "absent_or_object (map_of akvs ''largest-contentful-paint'')"
    and io: "absent_or_object (map_of akvs ''interaction-to-next-paint'')"
    and fo: "absent_or_object (map_of akvs ''first-input-delay'')"
    and clo: "absent_or_object (map_of akvs ''cumulative-layout-shift'')"
    using ws by (simp_all add: a2 lookup_path1 del: lookup_path.simps)
  have p3: "lookup_path data [''categories'', ''performance'', ''score''] = map_of pkvs ''score''"
    unfolding data c2 pkvs_def using lookup_path2 [OF po] by (simp add: lookup_path1 del: lookup_path.simps)
  have s3: "lookup_path data [''audits'', ''speed-index'', ''numericValue''] = map_of si ''numericValue''"
    unfolding data a2 si_def using lookup_path2 [OF so] by (simp add: lookup_path1 del: lookup_path.simps)
  have l3: "lookup_path data [''audits'', ''largest-contentful-paint'', ''numericValue''] = map_of lc ''numericValue''"
    unfolding data a2 lc_def using lookup_path2 [OF lo] by (simp add: lookup_path1 del: lookup_path.simps)
  have i3: "lookup_path data [''audits'', ''interaction-to-next-paint'', ''numericValue''] = map_of ip ''numericValue''"
    unfolding data a2 ip_def using lookup_path2 [OF io] by (simp add: lookup_path1 del: lookup_path.simps)
  have f3: "lookup_path data [''audits'', ''first-input-delay'', ''numericValue''] = map_of fd ''numericValue''"
    unfolding data a2 fd_def using lookup_path2 [OF fo] by (simp add: lookup_path1 del: lookup_path.simps)
  have cl3: "lookup_path data [''audits'', ''cumulative-layout-shift'', ''numericValue''] = map_of cl ''numericValue''"
    unfolding data a2 cl_def using lookup_path2 [OF clo] by (simp add: lookup_path1 del: lookup_path.simps)
  note ws' = assms [unfolded well_shaped_def p3 s3 l3 i3 f3 cl3]
  have pn: "absent_or_number (map_of pkvs ''score'')"
    and sm: "absent_or_millis (map_of si ''numericValue'')"
    and lm: "absent_or_millis (map_of lc ''numericValue'')"
    and inn: "absent_or_number (map_of ip ''numericValue'')"
    and fn: "map_of ip ''numericValue'' = None \<longrightarrow> absent_or_number (map_of fd ''numericValue'')"
    and cn: "absent_or_number (map_of cl ''numericValue'')"
    using ws' by blast+
  have "extract_metrics data =
     bind_exn (as_number (case map_of pkvs ''score'' of Some v \<Rightarrow> v | None \<Rightarrow> JNum (PyInt 0))) (\<lambda>score_n.
     bind_exn (as_number (case map_of si ''numericValue'' of Some v \<Rightarrow> v | None \<Rightarrow> JNum (PyInt 0))) (\<lambda>si_n.
     bind_exn (py_truediv si_n 1000) (\<lambda>speed_index.
     bind_exn (as_number (case map_of lc ''numericValue'' of Some v \<Rightarrow> v | None \<Rightarrow> JNum (PyInt 0))) (\<lambda>lcp_n.
     bind_exn (py_truediv lcp_n 1000) (\<lambda>lcp.
     bind_exn (as_number (case map_of ip ''numericValue'' of Some v \<Rightarrow> v
                 | None \<Rightarrow> (case map_of fd ''numericValue'' of Some v \<Rightarrow> v | None \<Rightarrow> JNum (PyInt 0)))) (\<lambda>inp_n.
     bind_exn (as_number (case map_of cl ''numericValue'' of Some v \<Rightarrow> v | None \<Rightarrow> JNum (PyInt 0))) (\<lambda>cls_n.
     Inr \<lparr>performance = PyNum (py_round (py_mul score_n 100) 1),
          speed_index = PyNum (py_round speed_index 2),
          lcp = PyNum (py_round lcp 2),
          inp = PyNum (py_round inp_n 2),
          cls = PyNum (py_round cls_n 3)\<rparr>)))))))"
  proof -
    have ga: "py_get (JObj top) ''audits'' (JObj []) = Inr (JObj akvs)"
      unfolding akvs_def using ao by (rule py_get_sub)
    have gc: "py_get (JObj top) ''categories'' (JObj []) = Inr (JObj ckvs)"
      unfolding ckvs_def using co by (rule py_get_sub)
    have gp: "py_get (JObj ckvs) ''performance'' (JObj []) = Inr (JObj pkvs)"
      unfolding pkvs_def using po by (rule py_get_sub)
    have gs: "py_get (JObj akvs) ''speed-index'' (JObj []) = Inr (JObj si)"
      unfolding si_def using so by (rule py_get_sub)
    have gl: "py_get (JObj akvs) ''largest-contentful-paint'' (JObj []) = Inr (JObj lc)"
      unfolding lc_def using lo by (rule py_get_sub)
    have gi: "py_get (JObj akvs) ''interaction-to-next-paint'' (JObj []) = Inr (JObj ip)"
      unfolding ip_def using io by (rule py_get_sub)
    have gf: "py_get (JObj akvs) ''first-input-delay'' (JObj []) = Inr (JObj fd)"
      unfolding fd_def using fo by (rule py_get_sub)
    have gcl: "py_get (JObj akvs) ''cumulative-layout-shift'' (JObj []) = Inr (JObj cl)"
      unfolding cl_def using clo by (rule py_get_sub)
    show ?thesis
      unfolding extract_metrics_def data Let_def
      apply (simp only: ga gc gp gs gl gi gf gcl bind_exn_Inr)
      apply (simp only: py_get_leaf bind_exn_Inr)
      done
  qed
  also have "\<dots> = Inr
     \<lparr>performance = PyNum (py_round (py_mul (case number_at (map_of pkvs ''score'') of None \<Rightarrow> PyInt 0 | Some n \<Rightarrow> n) 100) 1),
      speed_index = PyNum (py_round (case number_at (map_of si ''numericValue'') of None \<Rightarrow> PyFloat (Finite 0) | Some n \<Rightarrow> projr (py_truediv n 1000)) 2),
      lcp = PyNum (py_round (case number_at (map_of lc ''numericValue'') of None \<Rightarrow> PyFloat (Finite 0) | Some n \<Rightarrow> projr (py_truediv n 1000)) 2),
      inp = PyNum (py_round (case number_at (map_of ip ''numericValue'') of Some n \<Rightarrow> n
            | None \<Rightarrow> (case number_at (map_of fd ''numericValue'') of Some n \<Rightarrow> n | None \<Rightarrow> PyInt 0)) 2),
      cls = PyNum (py_round (case number_at (map_of cl ''numericValue'') of None \<Rightarrow> PyInt 0 | Some n \<Rightarrow> n) 3)\<rparr>"
    by (simp only: leaf_number [OF pn] leaf_number [OF millis_number [OF sm]]
        leaf_number [OF millis_number [OF lm]] leaf_number [OF cn] leaf_fallback [OF inn fn]
        leaf_seconds [OF sm] leaf_seconds [OF lm] bind_exn_Inr)
  also have "\<dots> = Inr
     \<lparr>performance = PyNum
        (case number_at (map_of pkvs ''score'') of
           None \<Rightarrow> PyInt 0
         | Some score \<Rightarrow> py_round (py_mul score 100) 1),
      speed_index = PyNum
        (case number_at (map_of si ''numericValue'') of
           None \<Rightarrow> PyFloat (Finite 0)
         | Some v \<Rightarrow> py_round (projr (py_truediv v 1000)) 2),
      lcp = PyNum
        (case number_at (map_of lc ''numericValue'') of
           None \<Rightarrow> PyFloat (Finite 0)
         | Some v \<Rightarrow> py_round (projr (py_truediv v 1000)) 2),
      inp = PyNum
        (case number_at (map_of ip ''numericValue'') of
           Some v \<Rightarrow> py_round v 2
         | None \<Rightarrow>
            (case number_at (map_of fd ''numericValue'') of
               Some v \<Rightarrow> py_round v 2
             | None \<Rightarrow> PyInt 0)),
      cls = PyNum
        (case number_at (map_of cl ''numericValue'') of
           None \<Rightarrow> PyInt 0
         | Some v \<Rightarrow> py_round v 3)\<rparr>"
    by (simp add: py_round_int py_round_zero py_mul_zero split: option.splits)
  finally show ?thesis
    by (simp only: raw_number_def p3 s3 l3 i3 f3 cl3)
qed

subsection \<open>Report naming\<close>

text \<open>
  C9. For a sitemap URL whose network location is \<open>www.example.com:443\<close>, domain
  extraction yields \<open>example.com\<close>: the \<open>www.\<close> is removed and the port is cut off at
  the colon. The report name is built from that domain.
\<close>

theorem extract_domain_example:
  assumes "urlparse_netloc lib sitemap_url = Inr ''www.example.com:443''"
  shows "extract_domain lib sitemap_url = Inr ''example.com''
       \<and> report_name lib sitemap_url ts = Inr (''example.com_pagespeed_'' @ ts @ ''.csv'')"
  using assms by (simp add: report_name_def extract_domain_def py_split_def bind_exn_def)

theorem extract_domain_example_witness:
  "urlparse_netloc (urllib example_env) ''https://www.example.com:443/sitemap.xml''
     = Inr ''www.example.com:443''
   \<and> extract_domain (urllib example_env) ''https://www.example.com:443/sitemap.xml''
     = Inr ''example.com''
   \<and> report_name (urllib example_env) ''https://www.example.com:443/sitemap.xml''
       ''20240101_120000''
     = Inr ''example.com_pagespeed_20240101_120000.csv''"
proof -
  have h: "urlparse_netloc (urllib example_env) ''https://www.example.com:443/sitemap.xml''
     = Inr ''www.example.com:443''"
    by (simp add: urlparse_netloc_def is_ascii_alpha_def scheme_chars_def)
  show ?thesis
    using h extract_domain_example [OF h, of "''20240101_120000''"] by simp
qed

subsection \<open>One row per URL, in order, at every point of the run\<close>




subsection \<open>The delay between measurements\<close>




subsection \<open>No report without URLs\<close>

text \<open>
  C10. When the sitemap reader returns no URL, \<open>main\<close> returns at once: the run has
  no step after its start, no report is created (not even one with the header only), and
  the file system is as it was. (The run returns; only a domain extraction that raises,
  before the sitemap is read, ends it otherwise.)
\<close>

theorem no_report_without_urls:
  assumes "get_urls_from_sitemap (http_get ev) sitemap_url = []"
  shows "snd (main ev sitemap_url delay w) = [(Started, w)]
       \<and> fst (main ev sitemap_url delay w)
           = (case report_name (urllib ev) sitemap_url (run_timestamp ev) of
                Inl e \<Rightarrow> Raised e
              | Inr path \<Rightarrow> Returned)
       \<and> (\<forall>(s, w') \<in> set (snd (main ev sitemap_url delay w)). s \<noteq> Created \<and> files w' = files w)
       \<and> files (snd (last (snd (main ev sitemap_url delay w))))
            (output_csv ev sitemap_url)
          = files w (output_csv ev sitemap_url)"
  using assms by (simp add: main_def split: sum.splits)

theorem no_report_without_urls_witness:
  "get_urls_from_sitemap (http_get offline_env) example_url = []
   \<and> report_name (urllib offline_env) example_url (run_timestamp offline_env) = Inr example_csv
   \<and> main offline_env example_url 5 empty_world = (Returned, [(Started, empty_world)])
   \<and> (Started, empty_world) \<in> set (snd (main offline_env example_url 5 empty_world))
   \<and> files (snd (last (snd (main offline_env example_url 5 empty_world))))
        (output_csv offline_env example_url) = None"
proof -
  have h: "get_urls_from_sitemap (http_get offline_env) example_url = []"
    by (simp add: offline_urls)
  show ?thesis
    using h no_report_without_urls [OF h, of 5 empty_world] offline_report_name
    by (simp add: empty_world_def prod_eq_iff)
qed

subsection \<open>Namespace-qualified and unqualified sitemaps\<close>

text \<open>
  C7, as amended. For every well-formed sitemap served with status 200, both variants of
  the sitemap reader return the url/loc entries whose \<open>url\<close> and \<open>loc\<close> tags are
  qualified with the sitemaps.org namespace, in document order: for each element below the
  root with the qualified tag \<open>url\<close>, the texts of its children with the qualified tag
  \<open>loc\<close>. So the namespaced form of a document yields the url/loc entries of the
  document. A document with no element of the qualified tag \<open>url\<close>, in particular a
  sitemap with the namespace omitted, yields the empty list: the path that the reader
  searches names the namespace, and nothing in either variant looks for unqualified tags.
\<close>

theorem sitemap_reader_needs_namespace:
  assumes "requests_get sitemap_url = Response 200 (Some root_elem)"
  shows "get_urls_from_sitemap requests_get sitemap_url
           = url_loc_texts (qname sitemap_ns ''url'') (qname sitemap_ns ''loc'') root_elem
       \<and> get_urls_from_sitemap_app2 requests_get sitemap_url
           = Inr (url_loc_texts (qname sitemap_ns ''url'') (qname sitemap_ns ''loc'') root_elem)
       \<and> (root_elem = qualify sitemap_ns doc \<longrightarrow>
            get_urls_from_sitemap requests_get sitemap_url = url_loc_texts ''url'' ''loc'' doc
          \<and> get_urls_from_sitemap_app2 requests_get sitemap_url
              = Inr (url_loc_texts ''url'' ''loc'' doc))
       \<and> (root_elem = flat_sitemap (qname sitemap_ns) locs \<longrightarrow>
            get_urls_from_sitemap requests_get sitemap_url = locs
          \<and> get_urls_from_sitemap_app2 requests_get sitemap_url = Inr locs)
       \<and> (list_all (\<lambda>e. elem_tag e \<noteq> qname sitemap_ns ''url'') (iter root_elem) \<longrightarrow>
            get_urls_from_sitemap requests_get sitemap_url = []
          \<and> get_urls_from_sitemap_app2 requests_get sitemap_url = Inr [])
       \<and> (root_elem = flat_sitemap unqualified locs \<longrightarrow>
            get_urls_from_sitemap requests_get sitemap_url = []
          \<and> get_urls_from_sitemap_app2 requests_get sitemap_url = Inr [])"
proof -
  have app2: "get_urls_from_sitemap_app2 requests_get sitemap_url
                = Inr (map elem_text (findall_url_loc root_elem))"
    using assms
    by (simp add: get_urls_from_sitemap_app2_def fromstring_def bind_exn_def findall_url_loc_def
        qname_literal)
  have app: "get_urls_from_sitemap requests_get sitemap_url = map elem_text (findall_url_loc root_elem)"
    using assms
    by (simp add: get_urls_from_sitemap_def get_urls_from_sitemap_try_def raise_for_status_def
        fromstring_def bind_exn_def)
  have t: "map elem_text (findall_url_loc root_elem)
      = url_loc_texts (qname sitemap_ns ''url'') (qname sitemap_ns ''loc'') root_elem"
    by (rule findall_texts)
  have q: "root_elem = qualify sitemap_ns doc \<longrightarrow>
      map elem_text (findall_url_loc root_elem) = url_loc_texts ''url'' ''loc'' doc"
    by (simp add: findall_texts url_loc_texts_qualify)
  have f: "root_elem = flat_sitemap (qname sitemap_ns) locs \<longrightarrow>
      map elem_text (findall_url_loc root_elem) = locs"
    by (simp add: findall_flat_qualified comp_def)
  have n: "list_all (\<lambda>e. elem_tag e \<noteq> qname sitemap_ns ''url'') (iter root_elem) \<longrightarrow>
      map elem_text (findall_url_loc root_elem) = []"
    by (simp add: findall_no_url)
  have u: "root_elem = flat_sitemap unqualified locs \<longrightarrow>
      map elem_text (findall_url_loc root_elem) = []"
    by (simp add: findall_no_url iter_flat_unqualified)
  show ?thesis
    unfolding app app2 using t q f n u by simp
qed

theorem sitemap_reader_needs_namespace_witness:
  "example_http example_url = Response 200 (Some (flat_sitemap (qname sitemap_ns) example_locs))
   \<and> get_urls_from_sitemap example_http example_url
       = [Some ''https://example.com/a'', Some ''https://example.com/b'']
   \<and> example_http_unqualified example_url
       = Response 200 (Some (flat_sitemap unqualified example_locs))
   \<and> list_all (\<lambda>e. elem_tag e \<noteq> qname sitemap_ns ''url'')
        (iter (flat_sitemap unqualified example_locs))
   \<and> get_urls_from_sitemap example_http_unqualified example_url = []
   \<and> get_urls_from_sitemap_app2 example_http_unqualified example_url = Inr []
   \<and> detailed_http example_url = Response 200 (Some (qualify sitemap_ns detailed_sitemap))
   \<and> get_urls_from_sitemap detailed_http example_url
       = [Some ''https://example.com/a'', Some ''https://example.com/b'']
   \<and> get_urls_from_sitemap_app2 detailed_http example_url
       = Inr [Some ''https://example.com/a'', Some ''https://example.com/b'']
   \<and> detailed_http_unqualified example_url = Response 200 (Some detailed_sitemap)
   \<and> list_all (\<lambda>e. elem_tag e \<noteq> qname sitemap_ns ''url'') (iter detailed_sitemap)
   \<and> get_urls_from_sitemap detailed_http_unqualified example_url = []"
proof -
  have q: "example_http example_url = Response 200 (Some (flat_sitemap (qname sitemap_ns) example_locs))"
    by (simp add: example_http_def)
  have u: "example_http_unqualified example_url
       = Response 200 (Some (flat_sitemap unqualified example_locs))"
    by (simp add: example_http_unqualified_def)
  have d: "detailed_http example_url = Response 200 (Some (qualify sitemap_ns detailed_sitemap))"
    by (simp add: detailed_http_def)
  have e: "detailed_http_unqualified example_url = Response 200 (Some detailed_sitemap)"
    by (simp add: detailed_http_unqualified_def)
  note t1 = sitemap_reader_needs_namespace [of example_http example_url
        "flat_sitemap (qname sitemap_ns) example_locs" detailed_sitemap example_locs, OF q]
  note t2 = sitemap_reader_needs_namespace [of example_http_unqualified example_url
        "flat_sitemap unqualified example_locs" detailed_sitemap example_locs, OF u]
  note t3 = sitemap_reader_needs_namespace [of detailed_http example_url
        "qualify sitemap_ns detailed_sitemap" detailed_sitemap example_locs, OF d]
  note t4 = sitemap_reader_needs_namespace [of detailed_http_unqualified example_url
        detailed_sitemap detailed_sitemap example_locs, OF e]
  have r1: "get_urls_from_sitemap example_http example_url = example_locs"
    using t1 by blast
  have r2: "get_urls_from_sitemap example_http_unqualified example_url = []
      \<and> get_urls_from_sitemap_app2 example_http_unqualified example_url = Inr []"
    using t2 by blast
  have r3: "get_urls_from_sitemap detailed_http example_url = url_loc_texts ''url'' ''loc'' detailed_sitemap
      \<and> get_urls_from_sitemap_app2 detailed_http example_url
          = Inr (url_loc_texts ''url'' ''loc'' detailed_sitemap)"
    using t3 by blast
  have r4: "get_urls_from_sitemap detailed_http_unqualified example_url = []"
    using t4 detailed_sitemap_unqualified by blast
  show ?thesis
    using q u d e detailed_sitemap_unqualified r1 r2 r3 r4
    by (simp add: iter_flat_unqualified detailed_sitemap_texts example_locs_def)
qed

text \<open>
  C7, as stated, fails: the example sitemap gives two URLs with the namespace and none
  without it.
\<close>

theorem unqualified_sitemap_counterexample:
  "get_urls_from_sitemap example_http_unqualified example_url
     \<noteq> get_urls_from_sitemap example_http example_url"
proof -
  have q: "get_urls_from_sitemap example_http example_url = example_locs"
    by (simp add: example_http_def get_urls_from_sitemap_def get_urls_from_sitemap_try_def
        raise_for_status_def fromstring_def bind_exn_def findall_flat_qualified comp_def)
  have u: "get_urls_from_sitemap example_http_unqualified example_url = []"
    by (simp add: example_http_unqualified_def get_urls_from_sitemap_def
        get_urls_from_sitemap_try_def raise_for_status_def fromstring_def bind_exn_def
        findall_no_url iter_flat_unqualified)
  show ?thesis by (simp add: q u example_locs_def)
qed

subsection \<open>Failures of the sitemap request\<close>

text \<open>
  C4, as amended. The sitemap reader returns the empty list when the request fails, when
  the status is one that \<open>raise_for_status\<close> rejects (400 to 599), and when the body is
  not well-formed XML; whatever exception the body of its \<open>try\<close> raises, the result is
  the empty list and nothing is raised to the caller. A response with any other status,
  success or not, is read like a success: the reader returns the url/loc entries of its
  body. When the reader returns no URL, \<open>main\<close> returns without a single measurement: the
  run consists of its start only. A run whose sitemap URL \<open>urlparse\<close> rejects does not
  reach the reader: it ends with that exception, without a measurement either.
\<close>

theorem sitemap_failure_yields_no_urls:
  "(requests_get sitemap_url = Failed \<longrightarrow> get_urls_from_sitemap requests_get sitemap_url = [])
 \<and> (requests_get sitemap_url = Response status parsed \<and> 400 \<le> status \<and> status < 600 \<longrightarrow>
       get_urls_from_sitemap requests_get sitemap_url = [])
 \<and> (requests_get sitemap_url = Response status None \<longrightarrow>
       get_urls_from_sitemap requests_get sitemap_url = [])
 \<and> (get_urls_from_sitemap_try requests_get sitemap_url = Inl e \<longrightarrow>
       get_urls_from_sitemap requests_get sitemap_url = [])
 \<and> (requests_get sitemap_url = Response status (Some root_elem)
        \<and> (status < 400 \<or> 600 \<le> status) \<longrightarrow>
       get_urls_from_sitemap requests_get sitemap_url
         = url_loc_texts (qname sitemap_ns ''url'') (qname sitemap_ns ''loc'') root_elem)
 \<and> (report_name (urllib ev) sitemap_url (run_timestamp ev) = Inr path
        \<and> get_urls_from_sitemap (http_get ev) sitemap_url = [] \<longrightarrow>
       fst (main ev sitemap_url delay w) = Returned
     \<and> snd (main ev sitemap_url delay w) = [(Started, w)])
 \<and> (report_name (urllib ev) sitemap_url (run_timestamp ev) = Inl err \<longrightarrow>
       fst (main ev sitemap_url delay w) = Raised err
     \<and> snd (main ev sitemap_url delay w) = [(Started, w)])
 \<and> (get_urls_from_sitemap (http_get ev) sitemap_url = [] \<longrightarrow>
       (\<forall>i. Measured i \<notin> set (map fst (snd (main ev sitemap_url delay w)))))"
proof (intro conjI impI)
  assume "requests_get sitemap_url = Failed"
  then show "get_urls_from_sitemap requests_get sitemap_url = []"
    by (simp add: get_urls_from_sitemap_def get_urls_from_sitemap_try_def)
next
  assume "requests_get sitemap_url = Response status parsed \<and> 400 \<le> status \<and> status < 600"
  then show "get_urls_from_sitemap requests_get sitemap_url = []"
    by (simp add: get_urls_from_sitemap_def get_urls_from_sitemap_try_def raise_for_status_def
        bind_exn_def)
next
  assume "requests_get sitemap_url = Response status None"
  then show "get_urls_from_sitemap requests_get sitemap_url = []"
    by (simp add: get_urls_from_sitemap_def get_urls_from_sitemap_try_def raise_for_status_def
        fromstring_def bind_exn_def)
next
  assume "get_urls_from_sitemap_try requests_get sitemap_url = Inl e"
  then show "get_urls_from_sitemap requests_get sitemap_url = []"
    by (simp add: get_urls_from_sitemap_def)
next
  assume "requests_get sitemap_url = Response status (Some root_elem)
        \<and> (status < 400 \<or> 600 \<le> status)"
  then have "get_urls_from_sitemap requests_get sitemap_url = map elem_text (findall_url_loc root_elem)"
    by (auto simp: get_urls_from_sitemap_def get_urls_from_sitemap_try_def raise_for_status_def
        fromstring_def bind_exn_def)
  then show "get_urls_from_sitemap requests_get sitemap_url
         = url_loc_texts (qname sitemap_ns ''url'') (qname sitemap_ns ''loc'') root_elem"
    by (simp add: findall_texts)
next
  assume a: "report_name (urllib ev) sitemap_url (run_timestamp ev) = Inr path
        \<and> get_urls_from_sitemap (http_get ev) sitemap_url = []"
  then show "fst (main ev sitemap_url delay w) = Returned"
    by (simp add: main_def)
  from a show "snd (main ev sitemap_url delay w) = [(Started, w)]"
    by (simp add: main_def)
next
  assume b: "report_name (urllib ev) sitemap_url (run_timestamp ev) = Inl err"
  then show "fst (main ev sitemap_url delay w) = Raised err"
    by (simp add: main_def)
  from b show "snd (main ev sitemap_url delay w) = [(Started, w)]"
    by (simp add: main_def)
next
  assume "get_urls_from_sitemap (http_get ev) sitemap_url = []"
  then show "\<forall>i. Measured i \<notin> set (map fst (snd (main ev sitemap_url delay w)))"
    by (simp add: main_empty_trace)
qed

theorem sitemap_failure_yields_no_urls_witness:
  "failed_http example_url = Failed
   \<and> get_urls_from_sitemap failed_http example_url = []
   \<and> not_found_http example_url
        = Response 404 (Some (flat_sitemap (qname sitemap_ns) example_locs))
   \<and> (400::nat) \<le> 404 \<and> (404::nat) < 600
   \<and> get_urls_from_sitemap not_found_http example_url = []
   \<and> malformed_http example_url = Response 200 None
   \<and> get_urls_from_sitemap malformed_http example_url = []
   \<and> get_urls_from_sitemap_try malformed_http example_url = Inl ParseError
   \<and> detailed_http example_url = Response 200 (Some (qualify sitemap_ns detailed_sitemap))
   \<and> (200::nat) < 400
   \<and> get_urls_from_sitemap detailed_http example_url
        = [Some ''https://example.com/a'', Some ''https://example.com/b'']
   \<and> report_name (urllib offline_env) example_url (run_timestamp offline_env) = Inr example_csv
   \<and> get_urls_from_sitemap (http_get offline_env) example_url = []
   \<and> main offline_env example_url 5 empty_world = (Returned, [(Started, empty_world)])"
proof -
  have a: "failed_http example_url = Failed" by (simp add: failed_http_def)
  have b: "not_found_http example_url
        = Response 404 (Some (flat_sitemap (qname sitemap_ns) example_locs))"
    by (simp add: not_found_http_def)
  have c: "malformed_http example_url = Response 200 None" by (simp add: malformed_http_def)
  have d: "get_urls_from_sitemap_try malformed_http example_url = Inl ParseError"
    by (simp add: c get_urls_from_sitemap_try_def raise_for_status_def fromstring_def bind_exn_def)
  have e: "get_urls_from_sitemap (http_get offline_env) example_url = []"
    by (simp add: offline_urls)
  have f: "detailed_http example_url = Response 200 (Some (qualify sitemap_ns detailed_sitemap))"
    by (simp add: detailed_http_def)
  show ?thesis
    using a b c d e f offline_report_name
      sitemap_failure_yields_no_urls [of failed_http example_url 0 None ParseError
        detailed_sitemap offline_env example_csv 5 empty_world ValueError]
      sitemap_failure_yields_no_urls [of not_found_http example_url 404
        "Some (flat_sitemap (qname sitemap_ns) example_locs)" ParseError
        detailed_sitemap offline_env example_csv 5 empty_world ValueError]
      sitemap_failure_yields_no_urls [of malformed_http example_url 200 None ParseError
        detailed_sitemap offline_env example_csv 5 empty_world ValueError]
      sitemap_failure_yields_no_urls [of detailed_http example_url 200 None ParseError
        "qualify sitemap_ns detailed_sitemap" offline_env example_csv 5 empty_world ValueError]
    by (simp add: prod_eq_iff url_loc_texts_qualify detailed_sitemap_texts)
qed

text \<open>
  C4, as stated, fails: a response with the status 300, which is not a success, and the
  example sitemap as its body gives the two URLs, not the empty list.
\<close>

theorem sitemap_status_counterexample:
  "get_urls_from_sitemap multiple_choices_http example_url
     = [Some ''https://example.com/a'', Some ''https://example.com/b'']"
  by (simp add: multiple_choices_urls example_locs_def)

subsection \<open>The header row\<close>

text \<open>
  C6, as amended. In every state of a run after the report has been created, the first
  row of the report is the header \<open>URL, Performance Score, Speed Index (s), LCP (s),
  INP (ms), CLS, Waktu Pengukuran\<close>, in this order; when the report is created it holds
  this row and nothing else.
\<close>

theorem report_header_row:
  assumes "(s, w') \<in> set (tl (snd (main ev sitemap_url delay w)))"
  shows "hd (report_rows (output_csv ev sitemap_url) w')
           = [PyStr ''URL'', PyStr ''Performance Score'', PyStr ''Speed Index (s)'',
              PyStr ''LCP (s)'', PyStr ''INP (ms)'', PyStr ''CLS'', PyStr ''Waktu Pengukuran'']
       \<and> (s = Created \<longrightarrow>
            report_rows (output_csv ev sitemap_url) w'
              = [[PyStr ''URL'', PyStr ''Performance Score'', PyStr ''Speed Index (s)'',
                  PyStr ''LCP (s)'', PyStr ''INP (ms)'', PyStr ''CLS'', PyStr ''Waktu Pengukuran'']])"
proof -
  have u: "report_urls (output_csv ev sitemap_url) w'
           = Some (map url_cell (take (rows_done s) (get_urls_from_sitemap (http_get ev) sitemap_url)))"
    using main_prefix [OF assms] by simp
  have "hd (report_rows (output_csv ev sitemap_url) w') = csv_header"
    using u by (rule report_urls_header)
  moreover have "s = Created \<longrightarrow> report_rows (output_csv ev sitemap_url) w' = [csv_header]"
    using u by (auto intro: report_urls_nil)
  ultimately show ?thesis by (simp add: csv_header_text)
qed

theorem report_header_row_witness:
  "(Created, open_write example_csv csv_header empty_world)
     \<in> set (tl (snd (main example_env example_url 5 empty_world)))
   \<and> report_rows example_csv (open_write example_csv csv_header empty_world)
       = [[PyStr ''URL'', PyStr ''Performance Score'', PyStr ''Speed Index (s)'',
           PyStr ''LCP (s)'', PyStr ''INP (ms)'', PyStr ''CLS'', PyStr ''Waktu Pengukuran'']]"
  using example_created [of 5]
    report_header_row [of Created "open_write example_csv csv_header empty_world"
      example_env example_url 5 empty_world]
  by (simp add: example_name)

text \<open>
  C6, as stated, fails: the last column is not headed \<open>Measurement Time\<close>.
\<close>

theorem report_header_counterexample:
  "hd (report_rows example_csv (snd (last (snd (main example_env example_url 5 empty_world)))))
     \<noteq> [PyStr ''URL'', PyStr ''Performance Score'', PyStr ''Speed Index (s)'',
         PyStr ''LCP (s)'', PyStr ''INP (ms)'', PyStr ''CLS'', PyStr ''Measurement Time'']"
proof -
  have r: "fst (main example_env example_url 5 empty_world) = Returned"
    by (simp add: example_returns)
  have n: "get_urls_from_sitemap (http_get example_env) example_url \<noteq> []"
    by (simp add: example_urls example_locs_def)
  have "hd (report_rows example_csv (snd (last (snd (main example_env example_url 5 empty_world)))))
          = csv_header"
    using main_final_report [OF r n] by (simp add: example_name report_urls_header)
  then show ?thesis by (simp add: csv_header_def)
qed

subsection \<open>The artifact of a measurement\<close>

text \<open>
  When the process exits after writing its artifact, the artifact is removed if it is
  JSON (also when the extraction from it raises afterwards) and stays if it is not; an
  artifact written before the timeout expired stays as well.
\<close>

lemma artifact_after_exit:
  assumes "subprocess_run u (lighthouse_report ts) = Exited (Some content)"
  shows "files (snd (run_lighthouse subprocess_run ts (Some u) w)) (lighthouse_report ts)
           = (case content of None \<Rightarrow> Some (Json_file None) | Some data \<Rightarrow> None)"
  using assms
  by (simp add: run_lighthouse_snd run_lighthouse_try_def Let_def write_report_def json_load_def
      os_remove_def split: option.splits)

lemma artifact_after_timeout:
  assumes "subprocess_run u (lighthouse_report ts) = Timeout (Some content)"
  shows "files (snd (run_lighthouse subprocess_run ts (Some u) w)) (lighthouse_report ts)
           = Some (Json_file content)"
  using assms
  by (simp add: run_lighthouse_snd run_lighthouse_try_def Let_def write_report_def)

text \<open>
  C5. The property asks for the artifact to be removed on every path. At this input (the
  process writes a text that is not JSON) the measurement yields the error values and the
  artifact is still in the file system afterwards: \<open>os.remove\<close> comes after
  \<open>json.load\<close> inside the \<open>try\<close>, and no handler removes the file.
\<close>

theorem artifact_left_after_parse_error:
  "fst (run_lighthouse garbled_lighthouse ''20240101_120001'' (Some ''https://example.com/a'')
          empty_world) = default_error_values
   \<and> files (snd (run_lighthouse garbled_lighthouse ''20240101_120001''
          (Some ''https://example.com/a'') empty_world))
        ''lighthouse_report_20240101_120001.json'' = Some (Json_file None)"
  by (simp add: run_lighthouse_def run_lighthouse_try_def garbled_lighthouse_def Let_def
      write_report_def json_load_def lighthouse_report_def empty_world_def)

subsection \<open>Failed measurements\<close>




subsection \<open>Metric extraction\<close>

text \<open>
  C3, as amended. For an output of the expected shape (an object; \<open>audits\<close>,
  \<open>categories\<close>, the performance category and the five audits objects where present; the
  score and the values read numbers where present, the quotients by 1000 within the range
  of a float) the extraction does not raise, and its result is: the performance score
  times 100 rounded to one decimal, 0 if the score is absent; the speed index and the
  largest contentful paint divided by 1000 and rounded to two decimals, 0 if absent; the
  interaction-to-next-paint value if present, else the first-input-delay value, else 0,
  rounded to two decimals and not converted; the cumulative layout shift rounded to three
  decimals, 0 if absent. Products, quotients and roundings are those of Python on \<open>int\<close>
  and \<open>float\<close>. For every other output the extraction raises, and \<open>run_lighthouse\<close>
  returns \<open>Error\<close> in all five fields.
\<close>

theorem extract_metrics_formulas:
  "(well_shaped data \<longrightarrow>
   extract_metrics data = Inr
        \<lparr>performance = PyNum
           (case raw_number data [''categories'', ''performance'', ''score''] of
              None \<Rightarrow> PyInt 0
            | Some score \<Rightarrow> py_round (py_mul score 100) 1),
         speed_index = PyNum
           (case raw_number data [''audits'', ''speed-index'', ''numericValue''] of
              None \<Rightarrow> PyFloat (Finite 0)
            | Some v \<Rightarrow> py_round (projr (py_truediv v 1000)) 2),
         lcp = PyNum
           (case raw_number data [''audits'', ''largest-contentful-paint'', ''numericValue''] of
              None \<Rightarrow> PyFloat (Finite 0)
            | Some v \<Rightarrow> py_round (projr (py_truediv v 1000)) 2),
         inp = PyNum
           (case raw_number data [''audits'', ''interaction-to-next-paint'', ''numericValue''] of
              Some v \<Rightarrow> py_round v 2
            | None \<Rightarrow>
               (case raw_number data [''audits'', ''first-input-delay'', ''numericValue''] of
                  Some v \<Rightarrow> py_round v 2
                | None \<Rightarrow> PyInt 0)),
         cls = PyNum
           (case raw_number data [''audits'', ''cumulative-layout-shift'', ''numericValue''] of
              None \<Rightarrow> PyInt 0
            | Some v \<Rightarrow> py_round v 3)\<rparr>)
 \<and> (\<not> well_shaped data \<longrightarrow> isl (extract_metrics data))
 \<and> (\<not> well_shaped data
      \<and> subprocess_run url (lighthouse_report timestamp) = Exited (Some (Some data)) \<longrightarrow>
     fst (run_lighthouse subprocess_run timestamp (Some url) w) = default_error_values)"
proof (intro conjI impI)
  assume "well_shaped data"
  then show "extract_metrics data = Inr
     \<lparr>performance = PyNum
        (case raw_number data [''categories'', ''performance'', ''score''] of
           None \<Rightarrow> PyInt 0
         | Some score \<Rightarrow> py_round (py_mul score 100) 1),
      speed_index = PyNum
        (case raw_number data [''audits'', ''speed-index'', ''numericValue''] of
           None \<Rightarrow> PyFloat (Finite 0)
         | Some v \<Rightarrow> py_round (projr (py_truediv v 1000)) 2),
      lcp = PyNum
        (case raw_number data [''audits'', ''largest-contentful-paint'', ''numericValue''] of
           None \<Rightarrow> PyFloat (Finite 0)
         | Some v \<Rightarrow> py_round (projr (py_truediv v 1000)) 2),
      inp = PyNum
        (case raw_number data [''audits'', ''interaction-to-next-paint'', ''numericValue''] of
           Some v \<Rightarrow> py_round v 2
         | None \<Rightarrow>
            (case raw_number data [''audits'', ''first-input-delay'', ''numericValue''] of
               Some v \<Rightarrow> py_round v 2
             | None \<Rightarrow> PyInt 0)),
      cls = PyNum
        (case raw_number data [''audits'', ''cumulative-layout-shift'', ''numericValue''] of
           None \<Rightarrow> PyInt 0
         | Some v \<Rightarrow> py_round v 3)\<rparr>"
    by (rule extract_metrics_well_shaped)
next
  assume "\<not> well_shaped data"
  then show "isl (extract_metrics data)"
    using extract_metrics_shape [of data] by (cases "extract_metrics data") auto
next
  assume a: "\<not> well_shaped data
      \<and> subprocess_run url (lighthouse_report timestamp) = Exited (Some (Some data))"
  then have "isl (extract_metrics data)"
    using extract_metrics_shape [of data] by (cases "extract_metrics data") auto
  with a show "fst (run_lighthouse subprocess_run timestamp (Some url) w) = default_error_values"
    by (simp add: run_lighthouse_ill_shaped)
qed

theorem extract_metrics_formulas_witness:
  "well_shaped example_data
   \<and> extract_metrics example_data = Inr
       \<lparr>performance = PyNum (PyFloat (Finite 57)),
        speed_index = PyNum (PyFloat (Finite (5787125521171087 / 2251799813685248))),
        lcp = PyNum (PyFloat (Finite (7070651414971679 / 2251799813685248))),
        inp = PyNum (PyFloat (Finite (4537376624575775 / 281474976710656))),
        cls = PyNum (PyFloat (Finite (3386706919782613 / 18014398509481984)))\<rparr>
   \<and> well_shaped inp_data
   \<and> extract_metrics inp_data = Inr
       \<lparr>performance = PyNum (PyInt 0),
        speed_index = PyNum (PyFloat (Finite 0)),
        lcp = PyNum (PyFloat (Finite 0)),
        inp = PyNum (PyInt 200),
        cls = PyNum (PyInt 0)\<rparr>
   \<and> well_shaped (JObj [])
   \<and> extract_metrics (JObj []) = Inr
       \<lparr>performance = PyNum (PyInt 0),
        speed_index = PyNum (PyFloat (Finite 0)),
        lcp = PyNum (PyFloat (Finite 0)),
        inp = PyNum (PyInt 0),
        cls = PyNum (PyInt 0)\<rparr>
   \<and> \<not> well_shaped null_score_data
   \<and> isl (extract_metrics null_score_data)
   \<and> null_score_lighthouse ''u'' (lighthouse_report ''t'') = Exited (Some (Some null_score_data))
   \<and> fst (run_lighthouse null_score_lighthouse ''t'' (Some ''u'') empty_world) = default_error_values"
proof -
  have n: "\<not> well_shaped null_score_data"
    by (rule null_score_shape)
  have l: "null_score_lighthouse ''u'' (lighthouse_report ''t'') = Exited (Some (Some null_score_data))"
    by (simp add: null_score_lighthouse_def)
  note t1 = extract_metrics_formulas [of example_data null_score_lighthouse "''u''" "''t''" empty_world]
  note t2 = extract_metrics_formulas [of inp_data null_score_lighthouse "''u''" "''t''" empty_world]
  note t3 = extract_metrics_formulas [of "JObj []" null_score_lighthouse "''u''" "''t''" empty_world]
  note t4 = extract_metrics_formulas [of null_score_data null_score_lighthouse "''u''" "''t''" empty_world]
  have r1: "extract_metrics example_data = Inr
       \<lparr>performance = PyNum (PyFloat (Finite 57)),
        speed_index = PyNum (PyFloat (Finite (5787125521171087 / 2251799813685248))),
        lcp = PyNum (PyFloat (Finite (7070651414971679 / 2251799813685248))),
        inp = PyNum (PyFloat (Finite (4537376624575775 / 281474976710656))),
        cls = PyNum (PyFloat (Finite (3386706919782613 / 18014398509481984)))\<rparr>"
    using t1 example_data_shape
    by (simp add: example_data_fields example_arithmetic)
  have r2: "extract_metrics inp_data = Inr
       \<lparr>performance = PyNum (PyInt 0),
        speed_index = PyNum (PyFloat (Finite 0)),
        lcp = PyNum (PyFloat (Finite 0)),
        inp = PyNum (PyInt 200),
        cls = PyNum (PyInt 0)\<rparr>"
    using t2 inp_data_shape
    by (simp add: inp_data_fields example_arithmetic)
  have r3: "extract_metrics (JObj []) = Inr
       \<lparr>performance = PyNum (PyInt 0),
        speed_index = PyNum (PyFloat (Finite 0)),
        lcp = PyNum (PyFloat (Finite 0)),
        inp = PyNum (PyInt 0),
        cls = PyNum (PyInt 0)\<rparr>"
    using t3 empty_data_shape
    by (simp add: empty_data_fields)
  have r4: "isl (extract_metrics null_score_data)
      \<and> fst (run_lighthouse null_score_lighthouse ''t'' (Some ''u'') empty_world) = default_error_values"
    using t4 n l by blast
  from example_data_shape inp_data_shape empty_data_shape n l r1 r2 r3 r4 show ?thesis
    by blast
qed

text \<open>
  C3, as stated, fails: on an output whose performance score is \<open>null\<close> and whose speed
  index is 2567 the extraction raises \<open>TypeError\<close> and yields no speed index.
\<close>

theorem null_score_counterexample:
  "extract_metrics null_score_data = Inl TypeError"
  by (simp add: null_score_fails)


end
